theory Spec2Isabelle
  imports Complex_Main "HOL-Library.Word" "HOL-Library.Log_Nat"
begin

unbundle bit_operations_syntax

section \<open>Python values, dictionaries and results\<close>

text \<open>
  The program is \<^verbatim>\<open>src/data/wargame.py\<close>. Its dictionaries are association lists in
  insertion order (every dict literal of the source has pairwise distinct keys), its
  floats are the reals that IEEE doubles denote, every float operation rounded to the
  nearest double, and its exceptions are values.
  A call that may loop forever returns \<open>None\<close>; a call that raises returns
  \<open>Some (Inl e)\<close>; a call that returns \<open>v\<close> gives \<open>Some (Inr v)\<close>.
\<close>

datatype pyval = PyFloat real | PyInt int | PyStr string

datatype error = ValueError | KeyError | OverflowError

type_synonym 'a dict = "(string \<times> 'a) list"

type_synonym 'a res = "(error + 'a) option"

definition getitem :: "'a dict \<Rightarrow> string \<Rightarrow> error + 'a" where
  \<comment> \<open>\<^verbatim>\<open>d[k]\<close>: KeyError on a missing key\<close>
  "getitem d k = (case map_of d k of None \<Rightarrow> Inl KeyError | Some v \<Rightarrow> Inr v)"

definition getitem2 :: "'a dict dict \<Rightarrow> string \<Rightarrow> string \<Rightarrow> error + 'a" where
  \<comment> \<open>\<^verbatim>\<open>d[k1][k2]\<close>\<close>
  "getitem2 d k1 k2 = (case getitem d k1 of Inl e \<Rightarrow> Inl e | Inr m \<Rightarrow> getitem m k2)"

definition bind_res :: "'a res \<Rightarrow> ('a \<Rightarrow> 'b res) \<Rightarrow> 'b res" where
  "bind_res m f = (case m of None \<Rightarrow> None | Some (Inl e) \<Rightarrow> Some (Inl e) | Some (Inr x) \<Rightarrow> f x)"

definition bind_err :: "error + 'a \<Rightarrow> ('a \<Rightarrow> 'b res) \<Rightarrow> 'b res" where
  "bind_err m f = (case m of Inl e \<Rightarrow> Some (Inl e) | Inr x \<Rightarrow> f x)"

section \<open>IEEE double arithmetic\<close>

text \<open>
  A Python float is an IEEE binary64 number. A finite one is modelled by the real it
  denotes, and every arithmetic operation of the source by the exact operation followed by
  \<open>fl\<close>, rounding to the nearest double, ties to the even significand:
  \<^item> \<open>expo x\<close> is the binary exponent of \<open>x > 0\<close>: \<open>2 ^ expo x \<le> x < 2 ^ (expo x + 1)\<close>;
  \<^item> \<open>ulp_exp x\<close> is the exponent of the spacing of the doubles around \<open>x\<close>: 53
    significant bits, and never below \<open>- 1074\<close>, the spacing of the subnormal numbers;
  \<^item> \<open>fl x\<close> is the multiple of that spacing nearest to \<open>x\<close>;
  \<^item> \<open>overflows x\<close> when \<open>x\<close> rounds to a magnitude of \<open>2 ^ 1024\<close> or more, where the double is
    an infinity.
  A decimal literal \<^verbatim>\<open>0.6\<close> of the source is the double \<open>fl 0.6\<close>.
\<close>

definition round_even :: "real \<Rightarrow> int" where
  "round_even x =
     (let f = \<lfloor>x\<rfloor>; d = x - of_int f
      in if d < 1 / 2 then f else if 1 / 2 < d then f + 1 else if even f then f else f + 1)"

definition expo :: "real \<Rightarrow> int" where
  "expo x = (if 1 \<le> x then bitlen \<lfloor>x\<rfloor> - 1 else - bitlen (\<lceil>1 / x\<rceil> - 1))"

definition ulp_exp :: "real \<Rightarrow> int" where
  "ulp_exp x = max (expo \<bar>x\<bar> - 52) (- 1074)"

definition fl :: "real \<Rightarrow> real" where
  "fl x = (if x = 0 then 0 else of_int (round_even (x / 2 powi ulp_exp x)) * 2 powi ulp_exp x)"

definition overflows :: "real \<Rightarrow> bool" where
  "overflows x = (2 ^ 1024 \<le> \<bar>fl x\<bar>)"

section \<open>The randomness source: \<^verbatim>\<open>numpy.random\<close>\<close>

text \<open>
  The source draws from numpy's process-wide legacy generator. numpy is a library, not
  part of the repository, so the generator's core is a parameter of every function
  below: \<open>G\<close> maps a generator state to one raw 32-bit output and the next state.
  The draw operations on top of it follow numpy's legacy \<^verbatim>\<open>RandomState\<close>:
  \<^item> \<^verbatim>\<open>random_sample\<close> builds a 53-bit fraction from two raw outputs (an exact double);
  \<^item> \<^verbatim>\<open>uniform(low, high)\<close> converts its bounds to doubles, raises OverflowError when
    the double \<^verbatim>\<open>high - low\<close> is not finite, with no check of \<^verbatim>\<open>low <= high\<close>, and
    otherwise returns \<^verbatim>\<open>low + range * random_sample()\<close>, computed in doubles: the
    product is rounded, then the sum;
  \<^item> \<^verbatim>\<open>randint(low, high)\<close> (dtype int64) raises ValueError unless
    \<^verbatim>\<open>low < high\<close> within the int64 range, and otherwise draws raw outputs, masked
    to the bit width of \<^verbatim>\<open>high - 1 - low\<close>, until one is in range;
  \<^item> \<^verbatim>\<open>choice(a)\<close> raises ValueError on an empty \<open>a\<close> and otherwise returns
    \<^verbatim>\<open>a[randint(0, len(a))]\<close>.
\<close>

type_synonym 's bitgen = "'s \<Rightarrow> 32 word \<times> 's"

definition random_sample :: "'s bitgen \<Rightarrow> 's \<Rightarrow> real \<times> 's" where
  "random_sample G g =
     (case G g of (a, g1) \<Rightarrow>
      case G g1 of (b, g2) \<Rightarrow>
        ((real (unat (drop_bit 5 a)) * 67108864 + real (unat (drop_bit 6 b)))
           / 9007199254740992, g2))"

definition random_uniform :: "'s bitgen \<Rightarrow> real \<Rightarrow> real \<Rightarrow> 's \<Rightarrow> real \<times> 's" where
  \<comment> \<open>\<^verbatim>\<open>lower + range * random_sample()\<close> in doubles; \<open>scale\<close> is the range\<close>
  "random_uniform G lower scale g =
     (case random_sample G g of (u, g') \<Rightarrow> (fl (lower + fl (scale * u)), g'))"

definition uniform :: "'s bitgen \<Rightarrow> real \<Rightarrow> real \<Rightarrow> 's \<Rightarrow> (real \<times> 's) res" where
  "uniform G low high g =
     (if overflows (high - low) then Some (Inl OverflowError)
      else Some (Inr (random_uniform G low (fl (high - low)) g)))"

definition gen_mask32 :: "32 word \<Rightarrow> 32 word" where
  "gen_mask32 rng =
     (let m1 = rng OR drop_bit 1 rng;
          m2 = m1 OR drop_bit 2 m1;
          m3 = m2 OR drop_bit 4 m2;
          m4 = m3 OR drop_bit 8 m3
      in m4 OR drop_bit 16 m4)"

definition gen_mask64 :: "64 word \<Rightarrow> 64 word" where
  "gen_mask64 rng =
     (let m1 = rng OR drop_bit 1 rng;
          m2 = m1 OR drop_bit 2 m1;
          m3 = m2 OR drop_bit 4 m2;
          m4 = m3 OR drop_bit 8 m3;
          m5 = m4 OR drop_bit 16 m4
      in m5 OR drop_bit 32 m5)"

definition next_uint64 :: "'s bitgen \<Rightarrow> 's \<Rightarrow> 64 word \<times> 's" where
  "next_uint64 G g =
     (case G g of (hi, g1) \<Rightarrow>
      case G g1 of (lo, g2) \<Rightarrow> (push_bit 32 (ucast hi) OR ucast lo, g2))"

partial_function (option) bounded_masked_uint32 ::
    "'s bitgen \<Rightarrow> 32 word \<Rightarrow> 32 word \<Rightarrow> 's \<Rightarrow> (32 word \<times> 's) option" where
  "bounded_masked_uint32 G rng msk g =
     (case G g of (w, g') \<Rightarrow>
        if rng < (w AND msk) then bounded_masked_uint32 G rng msk g'
        else Some (w AND msk, g'))"

declare bounded_masked_uint32.simps [code]

partial_function (option) bounded_masked_uint64 ::
    "'s bitgen \<Rightarrow> 64 word \<Rightarrow> 64 word \<Rightarrow> 's \<Rightarrow> (64 word \<times> 's) option" where
  "bounded_masked_uint64 G rng msk g =
     (case next_uint64 G g of (w, g') \<Rightarrow>
        if rng < (w AND msk) then bounded_masked_uint64 G rng msk g'
        else Some (w AND msk, g'))"

declare bounded_masked_uint64.simps [code]

definition random_bounded_uint64 :: "'s bitgen \<Rightarrow> int \<Rightarrow> 's \<Rightarrow> (int \<times> 's) option" where
  \<comment> \<open>an unsigned value in \<open>[0, rng]\<close>, for \<open>0 \<le> rng < 2 ^ 64\<close>\<close>
  "random_bounded_uint64 G rng g =
     (if rng = 0 then Some (0, g)
      else if rng < 0xFFFFFFFF then
        map_option (\<lambda>(v, g'). (uint v, g'))
          (bounded_masked_uint32 G (word_of_int rng) (gen_mask32 (word_of_int rng)) g)
      else if rng = 0xFFFFFFFF then
        (case G g of (w, g') \<Rightarrow> Some (uint w, g'))
      else if rng = 0xFFFFFFFFFFFFFFFF then
        (case next_uint64 G g of (w, g') \<Rightarrow> Some (uint w, g'))
      else
        map_option (\<lambda>(v, g'). (uint v, g'))
          (bounded_masked_uint64 G (word_of_int rng) (gen_mask64 (word_of_int rng)) g))"

definition randint :: "'s bitgen \<Rightarrow> int \<Rightarrow> int \<Rightarrow> 's \<Rightarrow> (int \<times> 's) res" where
  "randint G low high g =
     (if low < - (2 ^ 63) \<or> 2 ^ 63 < high \<or> high \<le> low then Some (Inl ValueError)
      else map_option (\<lambda>(v, g'). Inr (low + v, g')) (random_bounded_uint64 G (high - 1 - low) g))"

definition choice :: "'s bitgen \<Rightarrow> 'a list \<Rightarrow> 's \<Rightarrow> ('a \<times> 's) res" where
  "choice G a g =
     (if a = [] then Some (Inl ValueError)
      else bind_res (randint G 0 (int (length a)) g) (\<lambda>(idx, g'). Some (Inr (a ! nat idx, g'))))"

definition np_random_seed :: "(32 word \<Rightarrow> 's) \<Rightarrow> int \<Rightarrow> 's \<Rightarrow> error + 's" where
  \<comment> \<open>\<^verbatim>\<open>np.random.seed(seed)\<close> replaces the global state \<open>g\<close>, whatever it was\<close>
  "np_random_seed S seed g =
     (if 0 \<le> seed \<and> seed < 2 ^ 32 then Inr (S (word_of_int seed)) else Inl ValueError)"

section \<open>The parameter generators\<close>

text \<open>
  The items of each dict literal are evaluated in source order, each draw advancing the
  generator state. Every bound is converted to a double on the way into \<^verbatim>\<open>uniform\<close>.
\<close>

type_synonym weapon_effectiveness = "real dict dict"
type_synonym national_capabilities = "pyval dict dict"
type_synonym scenario = "pyval dict"

definition generate_weapon_effectiveness ::
    "'s bitgen \<Rightarrow> 's \<Rightarrow> (weapon_effectiveness \<times> 's) res" where
  "generate_weapon_effectiveness G g0 =
     bind_res (uniform G (fl 0.6) (fl 0.85) g0) (\<lambda>(tanks_accuracy, g1).
     bind_res (uniform G (fl 0.4) (fl 0.7) g1) (\<lambda>(tanks_kill, g2).
     bind_res (uniform G (fl 30) (fl 60) g2) (\<lambda>(tanks_range, g3).
     bind_res (uniform G (fl 0.5) (fl 0.75) g3) (\<lambda>(artillery_accuracy, g4).
     bind_res (uniform G (fl 0.3) (fl 0.6) g4) (\<lambda>(artillery_kill, g5).
     bind_res (uniform G (fl 20) (fl 50) g5) (\<lambda>(artillery_range, g6).
     bind_res (uniform G (fl 0.7) (fl 0.9) g6) (\<lambda>(jets_accuracy, g7).
     bind_res (uniform G (fl 0.5) (fl 0.8) g7) (\<lambda>(jets_kill, g8).
     bind_res (uniform G (fl 1500) (fl 3000) g8) (\<lambda>(jets_range, g9).
     bind_res (uniform G (fl 0.4) (fl 0.7) g9) (\<lambda>(cyber_infrastructure, g10).
     bind_res (uniform G (fl 0.3) (fl 0.6) g10) (\<lambda>(cyber_communication, g11).
     bind_res (uniform G (fl 0.2) (fl 0.5) g11) (\<lambda>(cyber_network, g12).
     bind_res (uniform G (fl 0.4) (fl 0.7) g12) (\<lambda>(special_mission, g13).
     bind_res (uniform G (fl 0.3) (fl 0.6) g13) (\<lambda>(special_target, g14).
       Some (Inr
         ([(''tanks'',
            [(''accuracy'', tanks_accuracy),
             (''kill_probability'', tanks_kill),
             (''operational_range_km'', tanks_range)]),
          (''artillery'',
            [(''accuracy'', artillery_accuracy),
             (''kill_probability'', artillery_kill),
             (''operational_range_km'', artillery_range)]),
          (''fighter_jets'',
            [(''accuracy'', jets_accuracy),
             (''kill_probability'', jets_kill),
             (''operational_range_km'', jets_range)]),
          (''cyber_attacks'',
            [(''infrastructure_disruption_probability'', cyber_infrastructure),
             (''communication_system_compromise'', cyber_communication),
             (''military_network_penetration'', cyber_network)]),
          (''special_forces'',
            [(''mission_success_probability'', special_mission),
             (''strategic_target_elimination'', special_target)])],
          g14))))))))))))))))"

definition generate_national_capabilities ::
    "'s bitgen \<Rightarrow> 's \<Rightarrow> (national_capabilities \<times> 's) res" where
  "generate_national_capabilities G g0 =
     bind_res (randint G 500000 1200000 g0) (\<lambda>(personnel_A, g1).
     bind_res (uniform G (fl 50) (fl 250) g1) (\<lambda>(budget_A, g2).
     bind_res (uniform G (fl 0.6) (fl 0.9) g2) (\<lambda>(tech_A, g3).
     bind_res (uniform G (fl 0.4) (fl 0.8) g3) (\<lambda>(cyber_A, g4).
     bind_res (uniform G (fl 0.5) (fl 0.9) g4) (\<lambda>(supply_A, g5).
     bind_res (randint G 400000 1000000 g5) (\<lambda>(personnel_B, g6).
     bind_res (uniform G (fl 40) (fl 200) g6) (\<lambda>(budget_B, g7).
     bind_res (uniform G (fl 0.5) (fl 0.85) g7) (\<lambda>(tech_B, g8).
     bind_res (uniform G (fl 0.3) (fl 0.7) g8) (\<lambda>(cyber_B, g9).
     bind_res (uniform G (fl 0.4) (fl 0.8) g9) (\<lambda>(supply_B, g10).
       Some (Inr
         ([(''Nation_A'',
             [(''military_personnel'', PyInt personnel_A),
              (''military_budget_billion_usd'', PyFloat budget_A),
              (''technological_readiness'', PyFloat tech_A),
              (''cyber_defense_capability'', PyFloat cyber_A),
              (''supply_chain_resilience'', PyFloat supply_A)]),
           (''Nation_B'',
             [(''military_personnel'', PyInt personnel_B),
              (''military_budget_billion_usd'', PyFloat budget_B),
              (''technological_readiness'', PyFloat tech_B),
              (''cyber_defense_capability'', PyFloat cyber_B),
              (''supply_chain_resilience'', PyFloat supply_B)])],
          g10))))))))))))"

section \<open>The scenario synthesizer\<close>

text \<open>
  \<open>make_scenario\<close> is the body of the loop of \<^verbatim>\<open>generate_conflict_scenarios\<close>: the dict
  literal, its items evaluated in source order. The two local variables in scope,
  \<^verbatim>\<open>weapon_effectiveness\<close> and \<^verbatim>\<open>national_capabilities\<close>, are its arguments.
\<close>

definition make_scenario ::
    "'s bitgen \<Rightarrow> weapon_effectiveness \<Rightarrow> national_capabilities \<Rightarrow> 's \<Rightarrow> (scenario \<times> 's) res" where
  "make_scenario G weapon_effectiveness national_capabilities g0 =
     bind_res (uniform G (fl 0.2) (fl 0.5) g0) (\<lambda>(cyber_conflict, g1).
     bind_res (uniform G (fl 0.3) (fl 0.6) g1) (\<lambda>(conventional_war, g2).
     bind_res (uniform G (fl 0.1) (fl 0.4) g2) (\<lambda>(limited_engagement, g3).
     bind_res (choice G [''Nation_A'', ''Nation_B''] g3) (\<lambda>(aggressor, g4).
     bind_res (uniform G (fl 30) (fl 180) g4) (\<lambda>(duration, g5).
     bind_err (getitem2 weapon_effectiveness ''tanks'' ''kill_probability'') (\<lambda>tank_A.
     bind_err (getitem2 weapon_effectiveness ''artillery'' ''kill_probability'') (\<lambda>artillery_A.
     bind_err (getitem2 weapon_effectiveness ''fighter_jets'' ''kill_probability'') (\<lambda>jet_A.
     bind_err (getitem2 weapon_effectiveness ''tanks'' ''kill_probability'') (\<lambda>tank_B.
     bind_err (getitem2 weapon_effectiveness ''artillery'' ''kill_probability'') (\<lambda>artillery_B.
     bind_err (getitem2 weapon_effectiveness ''fighter_jets'' ''kill_probability'') (\<lambda>jet_B.
     bind_err (getitem2 weapon_effectiveness ''cyber_attacks''
                 ''infrastructure_disruption_probability'') (\<lambda>cyber_A.
     bind_err (getitem2 weapon_effectiveness ''cyber_attacks''
                 ''infrastructure_disruption_probability'') (\<lambda>cyber_B.
     bind_res (uniform G (fl 5000) (fl 100000) g5) (\<lambda>(casualties_A, g6).
     bind_res (uniform G (fl 5000) (fl 100000) g6) (\<lambda>(casualties_B, g7).
     bind_res (uniform G (fl 10000) (fl 250000) g7) (\<lambda>(casualties_civilian, g8).
     bind_res (uniform G (fl 50) (fl 500) g8) (\<lambda>(economic_damage, g9).
       Some (Inr
         ([(''cyber_conflict_probability'', PyFloat cyber_conflict),
           (''conventional_war_probability'', PyFloat conventional_war),
           (''limited_engagement_probability'', PyFloat limited_engagement),
           (''initial_aggressor'', PyStr aggressor),
           (''conflict_duration_days'', PyFloat duration),
           (''tank_effectiveness_A'', PyFloat tank_A),
           (''artillery_effectiveness_A'', PyFloat artillery_A),
           (''jet_effectiveness_A'', PyFloat jet_A),
           (''tank_effectiveness_B'', PyFloat tank_B),
           (''artillery_effectiveness_B'', PyFloat artillery_B),
           (''jet_effectiveness_B'', PyFloat jet_B),
           (''cyber_disruption_potential_A'', PyFloat cyber_A),
           (''cyber_disruption_potential_B'', PyFloat cyber_B),
           (''estimated_military_casualties_A'', PyFloat casualties_A),
           (''estimated_military_casualties_B'', PyFloat casualties_B),
           (''estimated_civilian_casualties'', PyFloat casualties_civilian),
           (''economic_damage_billion_usd'', PyFloat economic_damage)],
          g9)))))))))))))))))))"

text \<open>
  The loop \<^verbatim>\<open>for _ in range(num_scenarios)\<close> with \<^verbatim>\<open>scenarios.append(scenario)\<close>: \<open>n\<close> is
  the number of iterations left, \<open>scenarios\<close> the list built so far.
\<close>

fun scenarios_loop ::
    "'s bitgen \<Rightarrow> weapon_effectiveness \<Rightarrow> national_capabilities \<Rightarrow> nat \<Rightarrow> scenario list \<Rightarrow> 's
      \<Rightarrow> (scenario list \<times> 's) res" where
  "scenarios_loop G w nc 0 scenarios g = Some (Inr (scenarios, g))"
| "scenarios_loop G w nc (Suc n) scenarios g =
     bind_res (make_scenario G w nc g) (\<lambda>(scenario, g').
       scenarios_loop G w nc n (scenarios @ [scenario]) g')"

text \<open>
  \<^verbatim>\<open>range(num_scenarios)\<close> is empty for a negative \<^verbatim>\<open>num_scenarios\<close>: the loop runs
  \<open>nat num_scenarios\<close> times. The returned table \<^verbatim>\<open>pd.DataFrame(scenarios)\<close> has one row per
  dict of the list, in list order; it is modelled as that list.
\<close>

definition generate_conflict_scenarios ::
    "'s bitgen \<Rightarrow> int \<Rightarrow> 's \<Rightarrow> (scenario list \<times> 's) res" where
  "generate_conflict_scenarios G num_scenarios g0 =
     bind_res (generate_weapon_effectiveness G g0) (\<lambda>(weapon_effectiveness, g1).
     bind_res (generate_national_capabilities G g1) (\<lambda>(national_capabilities, g2).
       scenarios_loop G weapon_effectiveness national_capabilities (nat num_scenarios) [] g2))"

text \<open>
  The script at the end of the file: construct the simulator (which seeds the global
  generator) and generate the table. \<open>S\<close> is the generator's seeding function.
\<close>

definition simulation_data ::
    "(32 word \<Rightarrow> 's) \<Rightarrow> 's bitgen \<Rightarrow> int \<Rightarrow> int \<Rightarrow> 's \<Rightarrow> scenario list res" where
  "simulation_data S G seed num_scenarios g =
     (case np_random_seed S seed g of
        Inl e \<Rightarrow> Some (Inl e)
      | Inr g0 \<Rightarrow> bind_res (generate_conflict_scenarios G num_scenarios g0)
                   (\<lambda>(table, g'). Some (Inr table)))"

section \<open>numpy's generator: MT19937\<close>

text \<open>
  The generator behind \<^verbatim>\<open>np.random\<close>, for evaluating the program at concrete seeds. The
  624 state words are kept as integers in \<open>[0, 2 ^ 32)\<close>, with the wrap-around written out.
\<close>

record mt19937_state =
  key :: "int list"
  pos :: int

fun init_key :: "nat \<Rightarrow> int \<Rightarrow> int \<Rightarrow> int list" where
  "init_key 0 p s = []"
| "init_key (Suc n) p s =
     s # init_key n (p + 1) ((1812433253 * (s XOR drop_bit 30 s) + p + 1) mod 4294967296)"

definition mt19937_seed :: "32 word \<Rightarrow> mt19937_state" where
  "mt19937_seed seed = \<lparr>key = init_key 624 0 (uint seed), pos = 624\<rparr>"

definition twist :: "int \<Rightarrow> int \<Rightarrow> int \<Rightarrow> int" where
  "twist a b c =
     (let y = (a AND 0x80000000) OR (b AND 0x7fffffff)
      in c XOR drop_bit 1 y XOR (if y AND 1 = 0 then 0 else 0x9908b0df))"

text \<open>
  One pass over the state, in place: word \<open>i\<close> becomes
  \<open>twist key[i] key[i+1] key[(i+397) mod 624]\<close>, where the third operand is an old word for
  \<open>i < 227\<close> and an already updated one from then on, and the last word takes the
  updated word 0 as its second operand.
\<close>

fun twist_seq :: "int list \<Rightarrow> int list \<Rightarrow> int list \<Rightarrow> int list" where
  "twist_seq (a # as) (b # bs) (c # cs) = twist a b c # twist_seq as bs cs"
| "twist_seq as bs cs = []"

definition mt19937_gen :: "mt19937_state \<Rightarrow> mt19937_state" where
  "mt19937_gen st =
     (let k = key st;
          new1 = twist_seq k (drop 1 k) (drop 397 k);
          new2 = twist_seq (drop 227 k) (drop 228 k) new1;
          new3 = twist_seq (drop 454 k) (drop 455 k) new2;
          final = twist (k ! 623) (new1 ! 0) (new2 ! 169)
      in \<lparr>key = new1 @ new2 @ new3 @ [final], pos = 0\<rparr>)"

definition temper :: "int \<Rightarrow> int" where
  "temper y0 =
     (let y1 = y0 XOR drop_bit 11 y0;
          y2 = y1 XOR (push_bit 7 y1 AND 0x9d2c5680);
          y3 = y2 XOR (push_bit 15 y2 AND 0xefc60000)
      in y3 XOR drop_bit 18 y3)"

definition mt19937_next :: "mt19937_state bitgen" where
  "mt19937_next st =
     (let st1 = (if pos st = 624 then mt19937_gen st else st)
      in (word_of_int (temper (key st1 ! nat (pos st1))), st1\<lparr>pos := pos st1 + 1\<rparr>))"

lemma bind_res_simps [simp]:
  "bind_res None f = None"
  "bind_res (Some (Inl e)) f = Some (Inl e)"
  "bind_res (Some (Inr x)) f = f x"
  by (simp_all add: bind_res_def)

lemma bind_err_simps [simp]:
  "bind_err (Inl e) f = Some (Inl e)"
  "bind_err (Inr x) f = f x"
  by (simp_all add: bind_err_def)

section \<open>Rounding is monotone\<close>

lemma round_even_of_int: "round_even (of_int n) = n"
  by (simp add: round_even_def)

lemma round_even_range: "\<lfloor>x\<rfloor> \<le> round_even x \<and> round_even x \<le> \<lfloor>x\<rfloor> + 1"
  by (simp add: round_even_def Let_def)

lemma round_even_mono:
  assumes "x \<le> y"
  shows "round_even x \<le> round_even y"
proof (cases "\<lfloor>x\<rfloor> = \<lfloor>y\<rfloor>")
  case True
  with assms show ?thesis by (auto simp add: round_even_def Let_def)
next
  case False
  with assms have "\<lfloor>x\<rfloor> + 1 \<le> \<lfloor>y\<rfloor>" using floor_mono [OF assms] by linarith
  with round_even_range [of x] round_even_range [of y] show ?thesis by linarith
qed

lemma round_even_le: "x \<le> of_int n \<Longrightarrow> round_even x \<le> n"
  using round_even_mono [of x "of_int n"] by (simp add: round_even_of_int)

lemma round_even_ge: "of_int n \<le> x \<Longrightarrow> n \<le> round_even x"
  using round_even_mono [of "of_int n" x] by (simp add: round_even_of_int)

lemma powi_nat: "0 \<le> k \<Longrightarrow> (2::real) powi k = 2 ^ nat k"
  by (simp add: power_int_def)

lemma powi_neg_nat: "0 \<le> k \<Longrightarrow> (2::real) powi (- k) = 1 / 2 ^ nat k"
  by (cases "k = 0") (simp_all add: power_int_def inverse_eq_divide power_divide)

lemma expo_bounds:
  assumes "0 < x"
  shows "2 powi expo x \<le> x \<and> x < 2 powi (expo x + 1)"
proof (cases "1 \<le> x")
  case True
  let ?n = "\<lfloor>x\<rfloor>"
  from True have n: "0 < ?n" by simp
  from bitlen_bounds [OF n] have b: "2 ^ nat (bitlen ?n - 1) \<le> ?n" "?n < 2 ^ nat (bitlen ?n)" by auto
  have pos: "1 \<le> bitlen ?n" using n by (simp add: bitlen_def floorlog_def)
  have "real_of_int (2 ^ nat (bitlen ?n - 1)) \<le> of_int ?n"
    using b(1) by (simp only: of_int_le_iff)
  then have "(2::real) ^ nat (bitlen ?n - 1) \<le> of_int ?n" by simp
  moreover have "of_int ?n \<le> x" by simp
  ultimately have A: "(2::real) ^ nat (bitlen ?n - 1) \<le> x" by linarith
  have "?n + 1 \<le> 2 ^ nat (bitlen ?n)" using b(2) by simp
  then have "real_of_int (?n + 1) \<le> real_of_int (2 ^ nat (bitlen ?n))"
    by (simp only: of_int_le_iff)
  then have "real_of_int ?n + 1 \<le> 2 ^ nat (bitlen ?n)" by simp
  moreover have "x < real_of_int ?n + 1" by linarith
  ultimately have B: "x < (2::real) ^ nat (bitlen ?n)" by linarith
  have e: "expo x = bitlen ?n - 1" using True by (simp add: expo_def)
  have "0 \<le> bitlen ?n - 1" "0 \<le> bitlen ?n - 1 + 1" using pos by simp_all
  then show ?thesis unfolding e using A B by (simp only: powi_nat) simp
next
  case False
  with assms have x: "0 < x" "x < 1" by simp_all
  let ?y = "1 / x"
  let ?m = "\<lceil>?y\<rceil> - 1"
  have y: "1 < ?y" using x by simp
  then have m: "0 < ?m" by simp
  from bitlen_bounds [OF m] have b: "2 ^ nat (bitlen ?m - 1) \<le> ?m" "?m < 2 ^ nat (bitlen ?m)" by auto
  have pos: "1 \<le> bitlen ?m" using m by (simp add: bitlen_def floorlog_def)
  have my: "real_of_int ?m < ?y" "?y \<le> real_of_int ?m + 1" by linarith+
  have "?m + 1 \<le> 2 ^ nat (bitlen ?m)" using b(2) by simp
  then have "real_of_int (?m + 1) \<le> real_of_int (2 ^ nat (bitlen ?m))"
    by (simp only: of_int_le_iff)
  then have "real_of_int ?m + 1 \<le> 2 ^ nat (bitlen ?m)" by simp
  with my have y_le: "?y \<le> 2 ^ nat (bitlen ?m)" by linarith
  have "real_of_int (2 ^ nat (bitlen ?m - 1)) \<le> real_of_int ?m"
    using b(1) by (simp only: of_int_le_iff)
  then have "(2::real) ^ nat (bitlen ?m - 1) \<le> real_of_int ?m" by simp
  with my have y_gt: "2 ^ nat (bitlen ?m - 1) < ?y" by linarith
  have "1 / 2 ^ nat (bitlen ?m) \<le> 1 / ?y"
    using y_le y x by (intro divide_left_mono) simp_all
  then have A: "1 / 2 ^ nat (bitlen ?m) \<le> x" by simp
  have "1 / ?y < 1 / 2 ^ nat (bitlen ?m - 1)"
    using y_gt x by (intro divide_strict_left_mono) simp_all
  then have B: "x < 1 / 2 ^ nat (bitlen ?m - 1)" by simp
  have e: "expo x = - bitlen ?m" using False by (simp add: expo_def)
  have e1: "- bitlen ?m + 1 = - (bitlen ?m - 1)" by simp
  have "0 \<le> bitlen ?m" "0 \<le> bitlen ?m - 1" using pos by simp_all
  then show ?thesis unfolding e e1 using A B by (simp only: powi_neg_nat)
qed

lemma expo_mono:
  assumes "0 < x" and "x \<le> y"
  shows "expo x \<le> expo y"
proof -
  from assms have y: "0 < y" by simp
  have "(2::real) powi expo x \<le> x" using expo_bounds [OF assms(1)] by simp
  also have "x \<le> y" by fact
  also have "y < 2 powi (expo y + 1)" using expo_bounds [OF y] by simp
  finally have lt: "(2::real) powi expo x < 2 powi (expo y + 1)" .
  show ?thesis
  proof (rule ccontr)
    assume "\<not> expo x \<le> expo y"
    then have "expo y + 1 \<le> expo x" by simp
    then have "(2::real) powi (expo y + 1) \<le> 2 powi expo x"
      by (rule power_int_increasing) simp
    with lt show False by simp
  qed
qed


lemma powi_pos: "0 < (2::real) powi k"
  by simp

lemma powi_split: "(2::real) powi a = of_int (2 ^ nat (a - q)) * 2 powi q" if "q \<le> a"
proof -
  have "(2::real) powi a = 2 powi (a - q) * 2 powi q"
    by (simp add: power_int_add [symmetric])
  also have "(2::real) powi (a - q) = 2 ^ nat (a - q)" using that by (simp add: powi_nat)
  finally show ?thesis by simp
qed

lemma fl_pos_eq:
  "x \<noteq> 0 \<Longrightarrow> fl x = of_int (round_even (x / 2 powi ulp_exp x)) * 2 powi ulp_exp x"
  by (simp add: fl_def)

lemma fl_nonneg:
  assumes "0 \<le> x"
  shows "0 \<le> fl x"
proof (cases "x = 0")
  case True
  then show ?thesis by (simp add: fl_def)
next
  case False
  have "of_int 0 \<le> x / 2 powi ulp_exp x" using assms by simp
  then have "0 \<le> round_even (x / 2 powi ulp_exp x)" by (rule round_even_ge)
  then show ?thesis using False by (simp add: fl_pos_eq)
qed

lemma fl_le_multiple:
  assumes "x \<noteq> 0" and "x \<le> of_int n * 2 powi ulp_exp x"
  shows "fl x \<le> of_int n * 2 powi ulp_exp x"
proof -
  have "x / 2 powi ulp_exp x \<le> of_int n"
    using assms(2) by (simp add: pos_divide_le_eq)
  then have "round_even (x / 2 powi ulp_exp x) \<le> n" by (rule round_even_le)
  then have "real_of_int (round_even (x / 2 powi ulp_exp x)) \<le> of_int n" by simp
  then show ?thesis using assms(1) by (simp add: fl_pos_eq)
qed

lemma fl_ge_multiple:
  assumes "x \<noteq> 0" and "of_int n * 2 powi ulp_exp x \<le> x"
  shows "of_int n * 2 powi ulp_exp x \<le> fl x"
proof -
  have "of_int n \<le> x / 2 powi ulp_exp x"
    using assms(2) by (simp add: pos_le_divide_eq)
  then have "n \<le> round_even (x / 2 powi ulp_exp x)" by (rule round_even_ge)
  then have "real_of_int n \<le> of_int (round_even (x / 2 powi ulp_exp x))" by simp
  then show ?thesis using assms(1) by (simp add: fl_pos_eq)
qed

lemma fl_mono:
  assumes "0 \<le> x" and "x \<le> y"
  shows "fl x \<le> fl y"
proof (cases "x = 0")
  case True
  with assms fl_nonneg [of y] show ?thesis by (simp add: fl_def)
next
  case False
  with assms have x: "0 < x" and y: "0 < y" by simp_all
  let ?qx = "ulp_exp x" and ?qy = "ulp_exp y"
  have qx: "?qx = max (expo x - 52) (- 1074)" using x by (simp add: ulp_exp_def)
  have qy: "?qy = max (expo y - 52) (- 1074)" using y by (simp add: ulp_exp_def)
  have le: "?qx \<le> ?qy" using expo_mono [OF x assms(2)] qx qy by simp
  show ?thesis
  proof (cases "?qx = ?qy")
    case True
    have "x / 2 powi ?qy \<le> y / 2 powi ?qy"
      using assms(2) by (simp add: divide_right_mono)
    then have "round_even (x / 2 powi ?qy) \<le> round_even (y / 2 powi ?qy)"
      by (rule round_even_mono)
    then have "real_of_int (round_even (x / 2 powi ?qy)) \<le> of_int (round_even (y / 2 powi ?qy))"
      by simp
    then have "real_of_int (round_even (x / 2 powi ?qy)) * 2 powi ?qy \<le>
               of_int (round_even (y / 2 powi ?qy)) * 2 powi ?qy"
      by (rule mult_right_mono) simp
    then show ?thesis using x y True by (simp add: fl_pos_eq)
  next
    case False
    with le have lt: "?qx < ?qy" by simp
    then have qy': "?qy = expo y - 52" using qx qy by (simp add: max_def split: if_splits)
    have ex: "expo x + 1 \<le> expo y" using lt qx qy' by (simp add: max_def split: if_splits)
    let ?B = "(2::real) powi expo y"
    have "x < 2 powi (expo x + 1)" using expo_bounds [OF x] by simp
    also have "(2::real) powi (expo x + 1) \<le> ?B" using ex by (rule power_int_increasing) simp
    finally have xB: "x \<le> ?B" by simp
    have Bx: "?B = of_int (2 ^ nat (expo y - ?qx)) * 2 powi ?qx"
      by (rule powi_split) (use lt qy' in simp)
    have By: "?B = of_int (2 ^ nat (expo y - ?qy)) * 2 powi ?qy"
      by (rule powi_split) (use qy' in simp)
    have "fl x \<le> ?B"
      using fl_le_multiple [of x "2 ^ nat (expo y - ?qx)"] x xB Bx by simp
    moreover have "?B \<le> fl y"
      using fl_ge_multiple [of y "2 ^ nat (expo y - ?qy)"] y expo_bounds [OF y] By by simp
    ultimately show ?thesis by simp
  qed
qed

lemma fl_zero: "fl 0 = 0"
  by (simp add: fl_def)

lemma expo_le:
  assumes "0 < x" and "x \<le> 2 powi k"
  shows "expo x \<le> k"
proof (rule ccontr)
  assume "\<not> expo x \<le> k"
  then have "k < expo x" by simp
  then have "(2::real) powi k < 2 powi expo x" by (rule power_int_strict_increasing) simp
  with expo_bounds [OF assms(1)] assms(2) show False by simp
qed

lemma fl_le_pow:
  assumes "0 \<le> x" and "x \<le> 2 powi k" and "- 1074 \<le> k"
  shows "fl x \<le> 2 powi k"
proof (cases "x = 0")
  case True
  then show ?thesis by (simp add: fl_def)
next
  case False
  with assms have x: "0 < x" by simp
  have "expo x \<le> k" by (rule expo_le [OF x assms(2)])
  then have q: "ulp_exp x \<le> k" using x assms(3) by (simp add: ulp_exp_def)
  have "(2::real) powi k = of_int (2 ^ nat (k - ulp_exp x)) * 2 powi ulp_exp x"
    by (rule powi_split [OF q])
  with fl_le_multiple [of x "2 ^ nat (k - ulp_exp x)"] False assms(2) show ?thesis by simp
qed

lemma no_overflow:
  assumes "0 \<le> x" and "x \<le> 2 ^ 1000"
  shows "\<not> overflows x"
proof -
  have "fl x \<le> 2 powi 1000" using assms by (intro fl_le_pow) simp_all
  moreover have "0 \<le> fl x" by (rule fl_nonneg [OF assms(1)])
  ultimately show ?thesis by (simp add: overflows_def)
qed

section \<open>Bounds of the draws\<close>

lemma unat_drop5: "unat (drop_bit 5 (a :: 32 word)) < 134217728"
proof -
  have "unat a < 2 ^ 32" using unsigned_less [of a] by simp
  moreover have "unat (drop_bit 5 a) = drop_bit 5 (unat a)" by (rule unat_drop_bit_eq)
  moreover have "drop_bit 5 (unat a) = unat a div 32" by (simp add: drop_bit_eq_div)
  ultimately show ?thesis by simp
qed

lemma unat_drop6: "unat (drop_bit 6 (b :: 32 word)) < 67108864"
proof -
  have "unat b < 2 ^ 32" using unsigned_less [of b] by simp
  moreover have "unat (drop_bit 6 b) = drop_bit 6 (unat b)" by (rule unat_drop_bit_eq)
  moreover have "drop_bit 6 (unat b) = unat b div 64" by (simp add: drop_bit_eq_div)
  ultimately show ?thesis by simp
qed

text \<open>
  A sample is a fraction \<open>n / 2 ^ 53\<close> with \<open>n < 2 ^ 53\<close>: it lies in \<open>[0, 1)\<close>, and the
  largest sample is \<open>(2 ^ 53 - 1) / 2 ^ 53\<close>.
\<close>

lemma random_sample_bounds:
  "0 \<le> fst (random_sample G g) \<and>
   fst (random_sample G g) \<le> 9007199254740991 / 9007199254740992"
proof -
  obtain a g1 where a: "G g = (a, g1)" by (cases "G g")
  obtain b g2 where b: "G g1 = (b, g2)" by (cases "G g1")
  define n where "n = unat (drop_bit 5 a) * 67108864 + unat (drop_bit 6 b)"
  have A: "unat (drop_bit 5 a) \<le> 134217727" using unat_drop5 [of a] by simp
  have B: "unat (drop_bit 6 b) \<le> 67108863" using unat_drop6 [of b] by simp
  have "n \<le> 134217727 * 67108864 + 67108863"
    unfolding n_def using A B by (intro add_mono mult_right_mono) simp_all
  then have "n \<le> 9007199254740991" by simp
  then have n: "real n \<le> 9007199254740991"
    by (metis of_nat_le_iff of_nat_numeral)
  have "fst (random_sample G g) = real n / 9007199254740992"
    by (simp add: random_sample_def a b n_def)
  with n show ?thesis by simp
qed

text \<open>
  \<open>draw G a b\<close> is the draw \<^verbatim>\<open>uniform(a, b)\<close> of the source once the range of the
  literals \<open>a\<close> and \<open>b\<close> is known to be finite: the value and the next state.
\<close>

definition draw :: "'s bitgen \<Rightarrow> real \<Rightarrow> real \<Rightarrow> 's \<Rightarrow> real \<times> 's" where
  "draw G a b g = random_uniform G (fl a) (fl (fl b - fl a)) g"

lemma uniform_draw:
  assumes "0 \<le> a" and "a \<le> b" and "b \<le> 2 ^ 1000"
  shows "uniform G (fl a) (fl b) g = Some (Inr (draw G a b g))"
proof -
  have ab: "fl a \<le> fl b" by (rule fl_mono [OF assms(1,2)])
  have "fl b \<le> 2 powi 1000" using assms by (intro fl_le_pow) simp_all
  moreover have "0 \<le> fl a" by (rule fl_nonneg [OF assms(1)])
  ultimately have "fl b - fl a \<le> 2 ^ 1000" by simp
  with ab have "\<not> overflows (fl b - fl a)" by (intro no_overflow) simp_all
  then show ?thesis by (simp add: uniform_def draw_def)
qed

lemma snd_draw: "snd (draw G a b g) = snd (random_sample G g)"
  by (simp add: draw_def random_uniform_def split_beta)

text \<open>
  A range \<open>[a, b]\<close> of literals is in order when the draw at the largest sample, computed
  in doubles, does not exceed the double \<open>fl b\<close>. Rounding is monotone, so then every
  draw lies between the doubles \<open>fl a\<close> and \<open>fl b\<close>.
\<close>

definition range_ok :: "real \<Rightarrow> real \<Rightarrow> bool" where
  "range_ok a b =
     (0 \<le> a \<and> a \<le> b \<and> fl (fl a) = fl a \<and>
      fl (fl a + fl (fl (fl b - fl a) * (9007199254740991 / 9007199254740992))) \<le> fl b)"

lemma draw_bounds:
  assumes "range_ok a b"
  shows "fl a \<le> fst (draw G a b g) \<and> fst (draw G a b g) \<le> fl b"
proof -
  let ?u = "fst (random_sample G g)"
  let ?r = "fl (fl b - fl a)"
  let ?umax = "9007199254740991 / 9007199254740992 :: real"
  from assms have a: "0 \<le> a" "a \<le> b" and idem: "fl (fl a) = fl a"
    and top: "fl (fl a + fl (?r * ?umax)) \<le> fl b"
    by (simp_all add: range_ok_def)
  have u: "0 \<le> ?u" "?u \<le> ?umax" using random_sample_bounds [of G g] by simp_all
  have la: "0 \<le> fl a" by (rule fl_nonneg [OF a(1)])
  have "fl a \<le> fl b" by (rule fl_mono [OF a])
  then have r: "0 \<le> ?r" by (intro fl_nonneg) simp
  have ru: "0 \<le> ?r * ?u" using r u by simp
  have p0: "0 \<le> fl (?r * ?u)" by (rule fl_nonneg [OF ru])
  have "?r * ?u \<le> ?r * ?umax" using r u by (intro mult_left_mono) simp_all
  then have p1: "fl (?r * ?u) \<le> fl (?r * ?umax)" by (rule fl_mono [OF ru])
  have "fl (fl a) \<le> fl (fl a + fl (?r * ?u))" using la p0 by (intro fl_mono) simp_all
  then have lower: "fl a \<le> fl (fl a + fl (?r * ?u))" by (simp only: idem)
  have "fl (fl a + fl (?r * ?u)) \<le> fl (fl a + fl (?r * ?umax))"
    using la p0 p1 by (intro fl_mono) simp_all
  with top have upper: "fl (fl a + fl (?r * ?u)) \<le> fl b" by simp
  have "fst (draw G a b g) = fl (fl a + fl (?r * ?u))"
    by (simp add: draw_def random_uniform_def split_beta)
  with lower upper show ?thesis by simp
qed

section \<open>The ranges of the program\<close>

text \<open>
  Each pair of bounds that the program passes to \<^verbatim>\<open>uniform\<close>, evaluated in double
  arithmetic at the largest sample \<open>1 - 2\<^sup>-\<^sup>5\<^sup>3\<close>: the draw stays within the bounds.
\<close>

lemma range_ok_0_6_0_85: "range_ok 0.6 0.85"
proof -
  have A: "fl 0.6 = (5404319552844595 / 9007199254740992 :: real)" by code_simp
  have B: "fl 0.85 = (7656119366529843 / 9007199254740992 :: real)" by code_simp
  have I: "fl (5404319552844595 / 9007199254740992) = (5404319552844595 / 9007199254740992 :: real)" by code_simp
  have R: "fl ((7656119366529843 / 9007199254740992) - (5404319552844595 / 9007199254740992)) = (1 / 4 :: real)" by code_simp
  have P: "fl ((1 / 4) * (9007199254740991 / 9007199254740992)) = (9007199254740991 / 36028797018963968 :: real)" by code_simp
  have T: "fl ((5404319552844595 / 9007199254740992) + (9007199254740991 / 36028797018963968)) = (7656119366529843 / 9007199254740992 :: real)" by code_simp
  show ?thesis
    by (simp only: range_ok_def A B I R P T) simp
qed

lemma range_ok_0_4_0_7: "range_ok 0.4 0.7"
proof -
  have A: "fl 0.4 = (3602879701896397 / 9007199254740992 :: real)" by code_simp
  have B: "fl 0.7 = (3152519739159347 / 4503599627370496 :: real)" by code_simp
  have I: "fl (3602879701896397 / 9007199254740992) = (3602879701896397 / 9007199254740992 :: real)" by code_simp
  have R: "fl ((3152519739159347 / 4503599627370496) - (3602879701896397 / 9007199254740992)) = (2702159776422297 / 9007199254740992 :: real)" by code_simp
  have P: "fl ((2702159776422297 / 9007199254740992) * (9007199254740991 / 9007199254740992)) = (5404319552844593 / 18014398509481984 :: real)" by code_simp
  have T: "fl ((3602879701896397 / 9007199254740992) + (5404319552844593 / 18014398509481984)) = (3152519739159347 / 4503599627370496 :: real)" by code_simp
  show ?thesis
    by (simp only: range_ok_def A B I R P T) simp
qed

lemma range_ok_30_60: "range_ok 30 60"
proof -
  have A: "fl 30 = (30 :: real)" by code_simp
  have B: "fl 60 = (60 :: real)" by code_simp
  have I: "fl (30) = (30 :: real)" by code_simp
  have R: "fl (60 - 30) = (30 :: real)" by code_simp
  have P: "fl (30 * (9007199254740991 / 9007199254740992)) = (8444249301319679 / 281474976710656 :: real)" by code_simp
  have T: "fl (30 + (8444249301319679 / 281474976710656)) = (60 :: real)" by code_simp
  show ?thesis
    by (simp only: range_ok_def A B I R P T) simp
qed

lemma range_ok_0_5_0_75: "range_ok 0.5 0.75"
proof -
  have A: "fl 0.5 = (1 / 2 :: real)" by code_simp
  have B: "fl 0.75 = (3 / 4 :: real)" by code_simp
  have I: "fl (1 / 2) = (1 / 2 :: real)" by code_simp
  have R: "fl ((3 / 4) - (1 / 2)) = (1 / 4 :: real)" by code_simp
  have P: "fl ((1 / 4) * (9007199254740991 / 9007199254740992)) = (9007199254740991 / 36028797018963968 :: real)" by code_simp
  have T: "fl ((1 / 2) + (9007199254740991 / 36028797018963968)) = (3 / 4 :: real)" by code_simp
  show ?thesis
    by (simp only: range_ok_def A B I R P T) simp
qed

lemma range_ok_0_3_0_6: "range_ok 0.3 0.6"
proof -
  have A: "fl 0.3 = (5404319552844595 / 18014398509481984 :: real)" by code_simp
  have B: "fl 0.6 = (5404319552844595 / 9007199254740992 :: real)" by code_simp
  have I: "fl (5404319552844595 / 18014398509481984) = (5404319552844595 / 18014398509481984 :: real)" by code_simp
  have R: "fl ((5404319552844595 / 9007199254740992) - (5404319552844595 / 18014398509481984)) = (5404319552844595 / 18014398509481984 :: real)" by code_simp
  have P: "fl ((5404319552844595 / 18014398509481984) * (9007199254740991 / 9007199254740992)) = (2702159776422297 / 9007199254740992 :: real)" by code_simp
  have T: "fl ((5404319552844595 / 18014398509481984) + (2702159776422297 / 9007199254740992)) = (2702159776422297 / 4503599627370496 :: real)" by code_simp
  show ?thesis
    by (simp only: range_ok_def A B I R P T) simp
qed

lemma range_ok_20_50: "range_ok 20 50"
proof -
  have A: "fl 20 = (20 :: real)" by code_simp
  have B: "fl 50 = (50 :: real)" by code_simp
  have I: "fl (20) = (20 :: real)" by code_simp
  have R: "fl (50 - 20) = (30 :: real)" by code_simp
  have P: "fl (30 * (9007199254740991 / 9007199254740992)) = (8444249301319679 / 281474976710656 :: real)" by code_simp
  have T: "fl (20 + (8444249301319679 / 281474976710656)) = (50 :: real)" by code_simp
  show ?thesis
    by (simp only: range_ok_def A B I R P T) simp
qed

lemma range_ok_0_7_0_9: "range_ok 0.7 0.9"
proof -
  have A: "fl 0.7 = (3152519739159347 / 4503599627370496 :: real)" by code_simp
  have B: "fl 0.9 = (8106479329266893 / 9007199254740992 :: real)" by code_simp
  have I: "fl (3152519739159347 / 4503599627370496) = (3152519739159347 / 4503599627370496 :: real)" by code_simp
  have R: "fl ((8106479329266893 / 9007199254740992) - (3152519739159347 / 4503599627370496)) = (1801439850948199 / 9007199254740992 :: real)" by code_simp
  have P: "fl ((1801439850948199 / 9007199254740992) * (9007199254740991 / 9007199254740992)) = (7205759403792795 / 36028797018963968 :: real)" by code_simp
  have T: "fl ((3152519739159347 / 4503599627370496) + (7205759403792795 / 36028797018963968)) = (8106479329266893 / 9007199254740992 :: real)" by code_simp
  show ?thesis
    by (simp only: range_ok_def A B I R P T) simp
qed

lemma range_ok_0_5_0_8: "range_ok 0.5 0.8"
proof -
  have A: "fl 0.5 = (1 / 2 :: real)" by code_simp
  have B: "fl 0.8 = (3602879701896397 / 4503599627370496 :: real)" by code_simp
  have I: "fl (1 / 2) = (1 / 2 :: real)" by code_simp
  have R: "fl ((3602879701896397 / 4503599627370496) - (1 / 2)) = (1351079888211149 / 4503599627370496 :: real)" by code_simp
  have P: "fl ((1351079888211149 / 4503599627370496) * (9007199254740991 / 9007199254740992)) = (5404319552844595 / 18014398509481984 :: real)" by code_simp
  have T: "fl ((1 / 2) + (5404319552844595 / 18014398509481984)) = (3602879701896397 / 4503599627370496 :: real)" by code_simp
  show ?thesis
    by (simp only: range_ok_def A B I R P T) simp
qed

lemma range_ok_1500_3000: "range_ok 1500 3000"
proof -
  have A: "fl 1500 = (1500 :: real)" by code_simp
  have B: "fl 3000 = (3000 :: real)" by code_simp
  have I: "fl (1500) = (1500 :: real)" by code_simp
  have R: "fl (3000 - 1500) = (1500 :: real)" by code_simp
  have P: "fl (1500 * (9007199254740991 / 9007199254740992)) = (6597069766655999 / 4398046511104 :: real)" by code_simp
  have T: "fl (1500 + (6597069766655999 / 4398046511104)) = (3000 :: real)" by code_simp
  show ?thesis
    by (simp only: range_ok_def A B I R P T) simp
qed

lemma range_ok_0_2_0_5: "range_ok 0.2 0.5"
proof -
  have A: "fl 0.2 = (3602879701896397 / 18014398509481984 :: real)" by code_simp
  have B: "fl 0.5 = (1 / 2 :: real)" by code_simp
  have I: "fl (3602879701896397 / 18014398509481984) = (3602879701896397 / 18014398509481984 :: real)" by code_simp
  have R: "fl ((1 / 2) - (3602879701896397 / 18014398509481984)) = (5404319552844595 / 18014398509481984 :: real)" by code_simp
  have P: "fl ((5404319552844595 / 18014398509481984) * (9007199254740991 / 9007199254740992)) = (2702159776422297 / 9007199254740992 :: real)" by code_simp
  have T: "fl ((3602879701896397 / 18014398509481984) + (2702159776422297 / 9007199254740992)) = (9007199254740991 / 18014398509481984 :: real)" by code_simp
  show ?thesis
    by (simp only: range_ok_def A B I R P T) simp
qed

lemma range_ok_30_180: "range_ok 30 180"
proof -
  have A: "fl 30 = (30 :: real)" by code_simp
  have B: "fl 180 = (180 :: real)" by code_simp
  have I: "fl (30) = (30 :: real)" by code_simp
  have R: "fl (180 - 30) = (150 :: real)" by code_simp
  have P: "fl (150 * (9007199254740991 / 9007199254740992)) = (5277655813324799 / 35184372088832 :: real)" by code_simp
  have T: "fl (30 + (5277655813324799 / 35184372088832)) = (6333186975989759 / 35184372088832 :: real)" by code_simp
  show ?thesis
    by (simp only: range_ok_def A B I R P T) simp
qed

lemma range_ok_50_500: "range_ok 50 500"
proof -
  have A: "fl 50 = (50 :: real)" by code_simp
  have B: "fl 500 = (500 :: real)" by code_simp
  have I: "fl (50) = (50 :: real)" by code_simp
  have R: "fl (500 - 50) = (450 :: real)" by code_simp
  have P: "fl (450 * (9007199254740991 / 9007199254740992)) = (7916483719987199 / 17592186044416 :: real)" by code_simp
  have T: "fl (50 + (7916483719987199 / 17592186044416)) = (8796093022207999 / 17592186044416 :: real)" by code_simp
  show ?thesis
    by (simp only: range_ok_def A B I R P T) simp
qed

section \<open>The weapon effectiveness profile\<close>

text \<open>
  The fourteen draws of \<open>generate_weapon_effectiveness\<close>, none of which can fail: every
  range of the table is finite.
\<close>

definition weapon_draws :: "'s bitgen \<Rightarrow> 's \<Rightarrow> weapon_effectiveness \<times> 's" where
  "weapon_draws G g0 =
     (let (tanks_accuracy, g1) = draw G 0.6 0.85 g0;
          (tanks_kill, g2) = draw G 0.4 0.7 g1;
          (tanks_range, g3) = draw G 30 60 g2;
          (artillery_accuracy, g4) = draw G 0.5 0.75 g3;
          (artillery_kill, g5) = draw G 0.3 0.6 g4;
          (artillery_range, g6) = draw G 20 50 g5;
          (jets_accuracy, g7) = draw G 0.7 0.9 g6;
          (jets_kill, g8) = draw G 0.5 0.8 g7;
          (jets_range, g9) = draw G 1500 3000 g8;
          (cyber_infrastructure, g10) = draw G 0.4 0.7 g9;
          (cyber_communication, g11) = draw G 0.3 0.6 g10;
          (cyber_network, g12) = draw G 0.2 0.5 g11;
          (special_mission, g13) = draw G 0.4 0.7 g12;
          (special_target, g14) = draw G 0.3 0.6 g13
      in ([(''tanks'',
            [(''accuracy'', tanks_accuracy),
             (''kill_probability'', tanks_kill),
             (''operational_range_km'', tanks_range)]),
          (''artillery'',
            [(''accuracy'', artillery_accuracy),
             (''kill_probability'', artillery_kill),
             (''operational_range_km'', artillery_range)]),
          (''fighter_jets'',
            [(''accuracy'', jets_accuracy),
             (''kill_probability'', jets_kill),
             (''operational_range_km'', jets_range)]),
          (''cyber_attacks'',
            [(''infrastructure_disruption_probability'', cyber_infrastructure),
             (''communication_system_compromise'', cyber_communication),
             (''military_network_penetration'', cyber_network)]),
          (''special_forces'',
            [(''mission_success_probability'', special_mission),
             (''strategic_target_elimination'', special_target)])],
          g14))"

lemma weapon_effectiveness_draws:
  "generate_weapon_effectiveness G g = Some (Inr (weapon_draws G g))"
  by (simp add: generate_weapon_effectiveness_def weapon_draws_def uniform_draw split_beta)

definition in_interval :: "weapon_effectiveness \<Rightarrow> string \<Rightarrow> string \<Rightarrow> real \<Rightarrow> real \<Rightarrow> bool" where
  \<comment> \<open>the profile has the metric, and its value lies in \<open>[lo, hi]\<close>\<close>
  "in_interval w category metric lo hi =
     (case getitem2 w category metric of Inl e \<Rightarrow> False | Inr v \<Rightarrow> lo \<le> v \<and> v \<le> hi)"

definition metric_names :: "'a dict dict \<Rightarrow> (string \<times> string list) list" where
  \<comment> \<open>the keys of a two-level dict, in insertion order\<close>
  "metric_names w = map (\<lambda>(category, metrics). (category, map fst metrics)) w"

lemma in_intervalI:
  "getitem2 w c m = Inr (fst (draw G a b g)) \<Longrightarrow> range_ok a b \<Longrightarrow> in_interval w c m (fl a) (fl b)"
  using draw_bounds [of a b G g] by (simp add: in_interval_def)

lemma double_integers:
  "fl 20 = 20 \<and> fl 30 = 30 \<and> fl 50 = 50 \<and> fl 60 = 60 \<and> fl 180 = 180 \<and> fl 500 = 500 \<and> fl 1500 = 1500 \<and> fl 3000 = 3000"
  by code_simp

lemma weapon_metric_names:
  "metric_names (fst (weapon_draws G g)) =
     [(''tanks'', [''accuracy'', ''kill_probability'', ''operational_range_km'']),
      (''artillery'', [''accuracy'', ''kill_probability'', ''operational_range_km'']),
      (''fighter_jets'', [''accuracy'', ''kill_probability'', ''operational_range_km'']),
      (''cyber_attacks'', [''infrastructure_disruption_probability'', ''communication_system_compromise'', ''military_network_penetration'']),
      (''special_forces'', [''mission_success_probability'', ''strategic_target_elimination''])]"
  by (simp add: metric_names_def weapon_draws_def split_beta)

text \<open>
  C4. Whatever the generator \<open>G\<close> and its state \<open>g\<close>, \<open>generate_weapon_effectiveness\<close>
  returns a profile that has exactly the fourteen metrics of the interval table, and each
  value, computed in double arithmetic, lies within its closed interval \<open>[lo, hi]\<close>, whose
  ends are the doubles of the source's literals.
\<close>

theorem weapon_effectiveness_within_intervals:
  "(case generate_weapon_effectiveness G g of
      Some (Inr (w, g')) \<Rightarrow>
        metric_names w =
          [(''tanks'', [''accuracy'', ''kill_probability'', ''operational_range_km'']),
          (''artillery'', [''accuracy'', ''kill_probability'', ''operational_range_km'']),
          (''fighter_jets'', [''accuracy'', ''kill_probability'', ''operational_range_km'']),
          (''cyber_attacks'', [''infrastructure_disruption_probability'', ''communication_system_compromise'', ''military_network_penetration'']),
          (''special_forces'', [''mission_success_probability'', ''strategic_target_elimination''])] \<and>
        in_interval w ''tanks'' ''accuracy'' (fl 0.6) (fl 0.85) \<and>
        in_interval w ''tanks'' ''kill_probability'' (fl 0.4) (fl 0.7) \<and>
        in_interval w ''tanks'' ''operational_range_km'' 30 60 \<and>
        in_interval w ''artillery'' ''accuracy'' (fl 0.5) (fl 0.75) \<and>
        in_interval w ''artillery'' ''kill_probability'' (fl 0.3) (fl 0.6) \<and>
        in_interval w ''artillery'' ''operational_range_km'' 20 50 \<and>
        in_interval w ''fighter_jets'' ''accuracy'' (fl 0.7) (fl 0.9) \<and>
        in_interval w ''fighter_jets'' ''kill_probability'' (fl 0.5) (fl 0.8) \<and>
        in_interval w ''fighter_jets'' ''operational_range_km'' 1500 3000 \<and>
        in_interval w ''cyber_attacks'' ''infrastructure_disruption_probability'' (fl 0.4) (fl 0.7) \<and>
        in_interval w ''cyber_attacks'' ''communication_system_compromise'' (fl 0.3) (fl 0.6) \<and>
        in_interval w ''cyber_attacks'' ''military_network_penetration'' (fl 0.2) (fl 0.5) \<and>
        in_interval w ''special_forces'' ''mission_success_probability'' (fl 0.4) (fl 0.7) \<and>
        in_interval w ''special_forces'' ''strategic_target_elimination'' (fl 0.3) (fl 0.6)
    | _ \<Rightarrow> False)"
proof -
  let ?w = "fst (weapon_draws G g)"
  have m1: "in_interval ?w ''tanks'' ''accuracy'' (fl 0.6) (fl 0.85)"
    by (rule in_intervalI [OF _ range_ok_0_6_0_85])
      (simp add: weapon_draws_def split_beta getitem2_def getitem_def)
  have m2: "in_interval ?w ''tanks'' ''kill_probability'' (fl 0.4) (fl 0.7)"
    by (rule in_intervalI [OF _ range_ok_0_4_0_7])
      (simp add: weapon_draws_def split_beta getitem2_def getitem_def)
  have m3: "in_interval ?w ''tanks'' ''operational_range_km'' (fl 30) (fl 60)"
    by (rule in_intervalI [OF _ range_ok_30_60])
      (simp add: weapon_draws_def split_beta getitem2_def getitem_def)
  have m4: "in_interval ?w ''artillery'' ''accuracy'' (fl 0.5) (fl 0.75)"
    by (rule in_intervalI [OF _ range_ok_0_5_0_75])
      (simp add: weapon_draws_def split_beta getitem2_def getitem_def)
  have m5: "in_interval ?w ''artillery'' ''kill_probability'' (fl 0.3) (fl 0.6)"
    by (rule in_intervalI [OF _ range_ok_0_3_0_6])
      (simp add: weapon_draws_def split_beta getitem2_def getitem_def)
  have m6: "in_interval ?w ''artillery'' ''operational_range_km'' (fl 20) (fl 50)"
    by (rule in_intervalI [OF _ range_ok_20_50])
      (simp add: weapon_draws_def split_beta getitem2_def getitem_def)
  have m7: "in_interval ?w ''fighter_jets'' ''accuracy'' (fl 0.7) (fl 0.9)"
    by (rule in_intervalI [OF _ range_ok_0_7_0_9])
      (simp add: weapon_draws_def split_beta getitem2_def getitem_def)
  have m8: "in_interval ?w ''fighter_jets'' ''kill_probability'' (fl 0.5) (fl 0.8)"
    by (rule in_intervalI [OF _ range_ok_0_5_0_8])
      (simp add: weapon_draws_def split_beta getitem2_def getitem_def)
  have m9: "in_interval ?w ''fighter_jets'' ''operational_range_km'' (fl 1500) (fl 3000)"
    by (rule in_intervalI [OF _ range_ok_1500_3000])
      (simp add: weapon_draws_def split_beta getitem2_def getitem_def)
  have m10: "in_interval ?w ''cyber_attacks'' ''infrastructure_disruption_probability'' (fl 0.4) (fl 0.7)"
    by (rule in_intervalI [OF _ range_ok_0_4_0_7])
      (simp add: weapon_draws_def split_beta getitem2_def getitem_def)
  have m11: "in_interval ?w ''cyber_attacks'' ''communication_system_compromise'' (fl 0.3) (fl 0.6)"
    by (rule in_intervalI [OF _ range_ok_0_3_0_6])
      (simp add: weapon_draws_def split_beta getitem2_def getitem_def)
  have m12: "in_interval ?w ''cyber_attacks'' ''military_network_penetration'' (fl 0.2) (fl 0.5)"
    by (rule in_intervalI [OF _ range_ok_0_2_0_5])
      (simp add: weapon_draws_def split_beta getitem2_def getitem_def)
  have m13: "in_interval ?w ''special_forces'' ''mission_success_probability'' (fl 0.4) (fl 0.7)"
    by (rule in_intervalI [OF _ range_ok_0_4_0_7])
      (simp add: weapon_draws_def split_beta getitem2_def getitem_def)
  have m14: "in_interval ?w ''special_forces'' ''strategic_target_elimination'' (fl 0.3) (fl 0.6)"
    by (rule in_intervalI [OF _ range_ok_0_3_0_6])
      (simp add: weapon_draws_def split_beta getitem2_def getitem_def)
  show ?thesis
    using weapon_metric_names [of G g] m1 m2 m3 m4 m5 m6 m7 m8 m9 m10 m11 m12 m13 m14
    by (cases "weapon_draws G g") (simp add: weapon_effectiveness_draws double_integers)
qed

section \<open>The loop body and the loop\<close>

lemma gen_mask32_1: "gen_mask32 1 = 1"
  by (simp add: gen_mask32_def)

lemma and_1_le: "\<not> (1 :: 32 word) < (w AND 1)"
  using word_and_le1 [of w 1] by (simp add: not_less)

lemma bounded_masked_1:
  "bounded_masked_uint32 G 1 1 g = Some (fst (G g) AND 1, snd (G g))"
  by (subst bounded_masked_uint32.simps) (simp add: split_beta and_1_le)

text \<open>
  Choosing between two options takes one raw output: the range is \<open>[0, 1]\<close>, the mask is 1,
  and every masked output is accepted at once. Bit 0 of the output picks the option.
\<close>

definition pick2 :: "32 word \<Rightarrow> 'a \<Rightarrow> 'a \<Rightarrow> 'a" where
  "pick2 w a b = (if w AND 1 = 0 then a else b)"

lemma and_1_cases: "(w :: 32 word) AND 1 = 0 \<or> w AND 1 = 1"
  by (simp add: and_one_eq mod2_eq_if)

lemma choice_two:
  "choice G [a, b] g = Some (Inr (pick2 (fst (G g)) a b, snd (G g)))"
proof -
  have r: "randint G 0 2 g = Some (Inr (uint (fst (G g) AND 1), snd (G g)))"
    by (simp add: randint_def random_bounded_uint64_def gen_mask32_1 bounded_masked_1)
  show ?thesis
    using and_1_cases [of "fst (G g)"]
    by (auto simp add: choice_def r pick2_def)
qed


text \<open>
  The loop body after its draws and its four lookups in the weapon profile have succeeded:
  \<open>build_scenario\<close> is the dict the body builds from the looked-up values.
\<close>

definition build_scenario :: "'s bitgen \<Rightarrow> real \<Rightarrow> real \<Rightarrow> real \<Rightarrow> real \<Rightarrow> 's \<Rightarrow> scenario \<times> 's" where
  "build_scenario G tank artillery jet cyber g0 =
     (let (cyber_conflict, g1) = draw G 0.2 0.5 g0;
          (conventional_war, g2) = draw G 0.3 0.6 g1;
          (limited_engagement, g3) = draw G 0.1 0.4 g2;
          (w, g4) = G g3;
          (duration, g5) = draw G 30 180 g4;
          (casualties_A, g6) = draw G 5000 100000 g5;
          (casualties_B, g7) = draw G 5000 100000 g6;
          (casualties_civilian, g8) = draw G 10000 250000 g7;
          (economic_damage, g9) = draw G 50 500 g8
      in ([(''cyber_conflict_probability'', PyFloat cyber_conflict),
           (''conventional_war_probability'', PyFloat conventional_war),
           (''limited_engagement_probability'', PyFloat limited_engagement),
           (''initial_aggressor'', PyStr (pick2 w ''Nation_A'' ''Nation_B'')),
           (''conflict_duration_days'', PyFloat duration),
           (''tank_effectiveness_A'', PyFloat tank),
           (''artillery_effectiveness_A'', PyFloat artillery),
           (''jet_effectiveness_A'', PyFloat jet),
           (''tank_effectiveness_B'', PyFloat tank),
           (''artillery_effectiveness_B'', PyFloat artillery),
           (''jet_effectiveness_B'', PyFloat jet),
           (''cyber_disruption_potential_A'', PyFloat cyber),
           (''cyber_disruption_potential_B'', PyFloat cyber),
           (''estimated_military_casualties_A'', PyFloat casualties_A),
           (''estimated_military_casualties_B'', PyFloat casualties_B),
           (''estimated_civilian_casualties'', PyFloat casualties_civilian),
           (''economic_damage_billion_usd'', PyFloat economic_damage)],
          g9))"

lemma make_scenario_alt:
  "make_scenario G w nc g =
     bind_err (getitem2 w ''tanks'' ''kill_probability'') (\<lambda>tank.
     bind_err (getitem2 w ''artillery'' ''kill_probability'') (\<lambda>artillery.
     bind_err (getitem2 w ''fighter_jets'' ''kill_probability'') (\<lambda>jet.
     bind_err (getitem2 w ''cyber_attacks'' ''infrastructure_disruption_probability'') (\<lambda>cyber.
       Some (Inr (build_scenario G tank artillery jet cyber g))))))"
proof (cases "getitem2 w ''tanks'' ''kill_probability''")
  case Inl
  then show ?thesis by (simp add: make_scenario_def uniform_draw split_beta choice_two)
next
  case tank: (Inr tank)
  show ?thesis
  proof (cases "getitem2 w ''artillery'' ''kill_probability''")
    case Inl
    then show ?thesis by (simp add: make_scenario_def uniform_draw split_beta choice_two tank)
  next
    case artillery: (Inr artillery)
    show ?thesis
    proof (cases "getitem2 w ''fighter_jets'' ''kill_probability''")
      case Inl
      then show ?thesis by (simp add: make_scenario_def uniform_draw split_beta choice_two tank artillery)
    next
      case jet: (Inr jet)
      show ?thesis
      proof (cases "getitem2 w ''cyber_attacks'' ''infrastructure_disruption_probability''")
        case Inl
        then show ?thesis by (simp add: make_scenario_def uniform_draw split_beta choice_two tank artillery jet)
      next
        case (Inr cyber)
        then show ?thesis
          by (simp add: make_scenario_def build_scenario_def uniform_draw split_beta choice_two tank artillery jet)
      qed
    qed
  qed
qed

text \<open>
  The four values the loop body reads from the weapon profile, when all are there.
\<close>

definition snapshot_values :: "weapon_effectiveness \<Rightarrow> (real \<times> real \<times> real \<times> real) option" where
  "snapshot_values w =
     (case (getitem2 w ''tanks'' ''kill_probability'',
            getitem2 w ''artillery'' ''kill_probability'',
            getitem2 w ''fighter_jets'' ''kill_probability'',
            getitem2 w ''cyber_attacks'' ''infrastructure_disruption_probability'') of
        (Inr tank, Inr artillery, Inr jet, Inr cyber) \<Rightarrow> Some (tank, artillery, jet, cyber)
      | _ \<Rightarrow> None)"

definition body :: "'s bitgen \<Rightarrow> real \<times> real \<times> real \<times> real \<Rightarrow> 's \<Rightarrow> scenario \<times> 's" where
  "body G v = (case v of (tank, artillery, jet, cyber) \<Rightarrow> build_scenario G tank artillery jet cyber)"

lemma snapshot_values_getitem:
  "snapshot_values w = Some (tank, artillery, jet, cyber) \<Longrightarrow>
   getitem2 w ''tanks'' ''kill_probability'' = Inr tank \<and>
   getitem2 w ''artillery'' ''kill_probability'' = Inr artillery \<and>
   getitem2 w ''fighter_jets'' ''kill_probability'' = Inr jet \<and>
   getitem2 w ''cyber_attacks'' ''infrastructure_disruption_probability'' = Inr cyber"
  by (simp add: snapshot_values_def split: sum.splits)

lemma make_scenario_snapshot:
  "snapshot_values w = Some v \<Longrightarrow> make_scenario G w nc g = Some (Inr (body G v g))"
  by (cases v) (simp add: make_scenario_alt body_def snapshot_values_getitem)

lemma make_scenario_no_snapshot:
  "snapshot_values w = None \<Longrightarrow> \<exists>e. make_scenario G w nc g = Some (Inl e)"
  by (auto simp add: make_scenario_alt snapshot_values_def split: sum.splits)

text \<open>
  \<open>rows mk n g\<close> runs a total body \<open>mk\<close> \<open>n\<close> times from state \<open>g\<close> and collects its
  results in order: what the loop computes once the lookups are known to succeed.
\<close>

fun rows :: "('s \<Rightarrow> 'r \<times> 's) \<Rightarrow> nat \<Rightarrow> 's \<Rightarrow> 'r list \<times> 's" where
  "rows mk 0 g = ([], g)"
| "rows mk (Suc n) g =
     (case mk g of (r, g') \<Rightarrow> case rows mk n g' of (rs, g'') \<Rightarrow> (r # rs, g''))"

lemma scenarios_loop_rows:
  "snapshot_values w = Some v \<Longrightarrow>
   scenarios_loop G w nc n acc g =
     Some (Inr (acc @ fst (rows (body G v) n g), snd (rows (body G v) n g)))"
proof (induction n arbitrary: acc g)
  case 0
  then show ?case by simp
next
  case (Suc n)
  show ?case
    using Suc.IH [OF Suc.prems]
    by (simp add: make_scenario_snapshot [OF Suc.prems] split_beta)
qed

lemma length_rows: "length (fst (rows mk n g)) = n"
  by (induction n arbitrary: g) (simp_all add: split_beta)

lemma set_rows: "r \<in> set (fst (rows mk n g)) \<Longrightarrow> \<exists>s. r = fst (mk s)"
  by (induction n arbitrary: g) (auto simp add: split_beta)

lemma rows_snoc:
  "rows mk (Suc n) g =
     (fst (rows mk n g) @ [fst (mk (snd (rows mk n g)))], snd (mk (snd (rows mk n g))))"
proof (induction n arbitrary: g)
  case 0
  then show ?case by (simp add: split_beta)
next
  case (Suc n)
  have "rows mk (Suc (Suc n)) g =
          (fst (mk g) # fst (rows mk (Suc n) (snd (mk g))), snd (rows mk (Suc n) (snd (mk g))))"
    by (simp add: split_beta)
  also have "\<dots> = (fst (rows mk (Suc n) g) @ [fst (mk (snd (rows mk (Suc n) g)))],
                  snd (mk (snd (rows mk (Suc n) g))))"
    unfolding Suc.IH [of "snd (mk g)"] by (simp add: split_beta)
  finally show ?case .
qed

lemma rows_take: "i \<le> n \<Longrightarrow> take i (fst (rows mk n g)) = fst (rows mk i g)"
proof (induction n)
  case 0
  then show ?case by simp
next
  case (Suc n)
  show ?case
  proof (cases "i = Suc n")
    case True
    then show ?thesis using length_rows [of mk "Suc n" g] by simp
  next
    case False
    with Suc.prems have "i \<le> n" by simp
    then show ?thesis using Suc.IH by (simp add: rows_snoc length_rows del: rows.simps)
  qed
qed

lemma rows_nth: "i < n \<Longrightarrow> fst (rows mk n g) ! i = fst (mk (snd (rows mk i g)))"
proof -
  assume i: "i < n"
  have "fst (rows mk n g) ! i = take (Suc i) (fst (rows mk n g)) ! i" by simp
  also have "\<dots> = fst (rows mk (Suc i) g) ! i" using i by (simp only: rows_take Suc_leI)
  also have "\<dots> = fst (mk (snd (rows mk i g)))" by (simp add: rows_snoc nth_append length_rows del: rows.simps)
  finally show ?thesis .
qed

lemma make_scenario_capabilities: "make_scenario G w nc g = make_scenario G w nc' g"
  by (simp add: make_scenario_alt)

lemma scenarios_loop_capabilities:
  "scenarios_loop G w nc n acc g = scenarios_loop G w nc' n acc g"
proof (induction n arbitrary: acc g)
  case 0
  then show ?case by simp
next
  case (Suc n)
  have "(\<lambda>(scenario, g'). scenarios_loop G w nc n (acc @ [scenario]) g') =
        (\<lambda>(scenario, g'). scenarios_loop G w nc' n (acc @ [scenario]) g')"
    by (simp add: Suc.IH)
  then show ?case by (simp add: make_scenario_capabilities [of G w nc _ nc'])
qed

lemma weapon_snapshot: "\<exists>v. snapshot_values (fst (weapon_draws G g)) = Some v"
  by (simp add: snapshot_values_def weapon_draws_def split_beta getitem2_def getitem_def)

text \<open>A call returns or runs forever, but does not raise.\<close>

definition no_raise :: "'a res \<Rightarrow> bool" where
  "no_raise m = (case m of Some (Inl e) \<Rightarrow> False | _ \<Rightarrow> True)"

lemma no_raise_cases: "no_raise m \<Longrightarrow> m = None \<or> (\<exists>x. m = Some (Inr x))"
  by (auto simp add: no_raise_def split: option.splits sum.splits)

lemma no_raise_bind:
  assumes "no_raise m" and "\<And>a b. no_raise (f a b)"
  shows "no_raise (bind_res m (\<lambda>(a, b). f a b))"
  using no_raise_cases [OF assms(1)] assms(2) by (auto simp add: no_raise_def)

lemma no_raise_return: "no_raise (Some (Inr x))"
  by (simp add: no_raise_def)

lemma no_raise_uniform:
  "0 \<le> a \<Longrightarrow> a \<le> b \<Longrightarrow> b \<le> 2 ^ 1000 \<Longrightarrow> no_raise (uniform G (fl a) (fl b) g)"
  by (simp add: uniform_draw no_raise_def)

lemma no_raise_randint:
  "- (2 ^ 63) \<le> low \<Longrightarrow> high \<le> 2 ^ 63 \<Longrightarrow> low < high \<Longrightarrow> no_raise (randint G low high g)"
  by (cases "random_bounded_uint64 G (high - 1 - low) g") (auto simp add: randint_def no_raise_def)

lemma capabilities_no_raise: "no_raise (generate_national_capabilities G g)"
  unfolding generate_national_capabilities_def
  by (intro no_raise_bind no_raise_return no_raise_uniform no_raise_randint) simp_all

lemma capabilities_cases:
  "generate_national_capabilities G g = None \<or>
   (\<exists>x. generate_national_capabilities G g = Some (Inr x))"
  by (rule no_raise_cases [OF capabilities_no_raise])

lemma conflict_scenarios_eq:
  assumes "generate_national_capabilities G (snd (weapon_draws G g)) = Some (Inr (nc, g2))"
    and "snapshot_values (fst (weapon_draws G g)) = Some v"
  shows "generate_conflict_scenarios G N g = Some (Inr (rows (body G v) (nat N) g2))"
  using assms
  by (simp add: generate_conflict_scenarios_def weapon_effectiveness_draws split_beta
      scenarios_loop_rows)

lemma conflict_scenarios_rows:
  assumes "generate_conflict_scenarios G N g = Some (Inr (t, g'))"
  shows "\<exists>v s. snapshot_values (fst (weapon_draws G g)) = Some v \<and>
           t = fst (rows (body G v) (nat N) s)"
proof -
  let ?g1 = "snd (weapon_draws G g)"
  obtain v where v: "snapshot_values (fst (weapon_draws G g)) = Some v"
    using weapon_snapshot [of G g] by blast
  from capabilities_cases [of G ?g1] show ?thesis
  proof
    assume "generate_national_capabilities G ?g1 = None"
    with assms show ?thesis
      by (simp add: generate_conflict_scenarios_def weapon_effectiveness_draws split_beta)
  next
    assume "\<exists>x. generate_national_capabilities G ?g1 = Some (Inr x)"
    then obtain nc g2 where "generate_national_capabilities G ?g1 = Some (Inr (nc, g2))" by auto
    from conflict_scenarios_eq [OF this v, of N] assms
    have "t = fst (rows (body G v) (nat N) g2)" by (metis option.inject sum.inject(2) fst_conv)
    with v show ?thesis by blast
  qed
qed

lemma conflict_scenarios_record:
  assumes "generate_conflict_scenarios G N g = Some (Inr (t, g'))" and "r \<in> set t"
  shows "\<exists>v s. snapshot_values (fst (weapon_draws G g)) = Some v \<and> r = fst (body G v s)"
proof -
  from conflict_scenarios_rows [OF assms(1)] obtain v s
    where v: "snapshot_values (fst (weapon_draws G g)) = Some v"
      and t: "t = fst (rows (body G v) (nat N) s)" by blast
  from assms(2) t set_rows [of r "body G v" "nat N" s] v show ?thesis by blast
qed

lemma weapon_effectiveness_result:
  "generate_weapon_effectiveness G g = Some (Inr (w, g1)) \<Longrightarrow> (w, g1) = weapon_draws G g"
  by (simp add: weapon_effectiveness_draws)

section \<open>The records of the table\<close>

definition scenario_fields :: "string list" where
  "scenario_fields =
     [''cyber_conflict_probability'', ''conventional_war_probability'',
      ''limited_engagement_probability'', ''initial_aggressor'', ''conflict_duration_days'',
      ''tank_effectiveness_A'', ''artillery_effectiveness_A'', ''jet_effectiveness_A'',
      ''tank_effectiveness_B'', ''artillery_effectiveness_B'', ''jet_effectiveness_B'',
      ''cyber_disruption_potential_A'', ''cyber_disruption_potential_B'',
      ''estimated_military_casualties_A'', ''estimated_military_casualties_B'',
      ''estimated_civilian_casualties'', ''economic_damage_billion_usd'']"

definition float_in :: "scenario \<Rightarrow> string \<Rightarrow> real \<Rightarrow> real \<Rightarrow> bool" where
  "float_in r field lo hi =
     (case getitem r field of Inr (PyFloat x) \<Rightarrow> lo \<le> x \<and> x \<le> hi | _ \<Rightarrow> False)"

definition field_is :: "scenario \<Rightarrow> string \<Rightarrow> error + real \<Rightarrow> bool" where
  "field_is r field v = (case v of Inl e \<Rightarrow> False | Inr x \<Rightarrow> getitem r field = Inr (PyFloat x))"

lemma body_fields: "map fst (fst (body G v s)) = scenario_fields"
  by (cases v) (simp add: body_def build_scenario_def split_beta scenario_fields_def)

lemma body_aggressor:
  "getitem (fst (body G v s)) ''initial_aggressor'' = Inr (PyStr ''Nation_A'') \<or>
   getitem (fst (body G v s)) ''initial_aggressor'' = Inr (PyStr ''Nation_B'')"
  by (cases v) (simp add: body_def build_scenario_def split_beta getitem_def pick2_def)

lemma float_inI:
  "getitem r field = Inr (PyFloat (fst (draw G a b g))) \<Longrightarrow> range_ok a b \<Longrightarrow>
   float_in r field (fl a) (fl b)"
  using draw_bounds [of a b G g] by (simp add: float_in_def)

lemma body_duration: "float_in (fst (body G v s)) ''conflict_duration_days'' 30 180"
proof -
  have "float_in (fst (body G v s)) ''conflict_duration_days'' (fl 30) (fl 180)"
    by (cases v, rule float_inI [OF _ range_ok_30_180])
      (simp add: body_def build_scenario_def split_beta getitem_def)
  then show ?thesis by (simp add: double_integers)
qed

lemma body_damage: "float_in (fst (body G v s)) ''economic_damage_billion_usd'' 50 500"
proof -
  have "float_in (fst (body G v s)) ''economic_damage_billion_usd'' (fl 50) (fl 500)"
    by (cases v, rule float_inI [OF _ range_ok_50_500])
      (simp add: body_def build_scenario_def split_beta getitem_def)
  then show ?thesis by (simp add: double_integers)
qed

section \<open>Properties of every record\<close>

text \<open>
  C9. In every table that \<open>generate_conflict_scenarios\<close> returns, the field
  \<open>initial_aggressor\<close> of every record is the string \<open>Nation_A\<close> or the string \<open>Nation_B\<close>.
\<close>

theorem initial_aggressor_is_a_nation:
  assumes "generate_conflict_scenarios G N g = Some (Inr (t, g'))"
  shows "\<forall>r\<in>set t. getitem r ''initial_aggressor'' = Inr (PyStr ''Nation_A'') \<or>
                    getitem r ''initial_aggressor'' = Inr (PyStr ''Nation_B'')"
proof
  fix r assume "r \<in> set t"
  from conflict_scenarios_record [OF assms this] obtain v s where "r = fst (body G v s)" by blast
  then show "getitem r ''initial_aggressor'' = Inr (PyStr ''Nation_A'') \<or>
             getitem r ''initial_aggressor'' = Inr (PyStr ''Nation_B'')"
    using body_aggressor [of G v s] by simp
qed

lemma scenario_fields_distinct: "length scenario_fields = 17 \<and> distinct scenario_fields"
  by (simp add: scenario_fields_def)

text \<open>
  C10, amended. Every record of every returned table has the same keys, in the same order:
  the seventeen names of \<open>scenario_fields\<close>, pairwise distinct. The schema has seventeen
  fields, not sixteen.
\<close>

theorem scenario_schema:
  assumes "generate_conflict_scenarios G N g = Some (Inr (t, g'))"
  shows "(\<forall>r\<in>set t. map fst r = scenario_fields) \<and>
         length scenario_fields = 17 \<and> distinct scenario_fields"
proof -
  have "map fst r = scenario_fields" if "r \<in> set t" for r
  proof -
    from conflict_scenarios_record [OF assms that] obtain v s where "r = fst (body G v s)" by blast
    then show ?thesis by (simp add: body_fields)
  qed
  with scenario_fields_distinct show ?thesis by blast
qed

definition integer_valued :: "pyval \<Rightarrow> bool" where
  "integer_valued v = (case v of PyInt i \<Rightarrow> True | PyFloat x \<Rightarrow> of_int \<lfloor>x\<rfloor> = x | PyStr s \<Rightarrow> False)"

text \<open>
  C7, amended. In every record of every returned table, \<open>conflict_duration_days\<close> is a
  float in \<open>[30, 180]\<close> and \<open>economic_damage_billion_usd\<close> a float in \<open>[50, 500]\<close>. The
  duration is a uniform draw of a double: it need not be integer-valued.
\<close>

theorem duration_and_damage_ranges:
  assumes "generate_conflict_scenarios G N g = Some (Inr (t, g'))"
  shows "\<forall>r\<in>set t. float_in r ''conflict_duration_days'' 30 180 \<and>
                    float_in r ''economic_damage_billion_usd'' 50 500"
proof
  fix r assume "r \<in> set t"
  from conflict_scenarios_record [OF assms this] obtain v s where "r = fst (body G v s)" by blast
  then show "float_in r ''conflict_duration_days'' 30 180 \<and>
             float_in r ''economic_damage_billion_usd'' 50 500"
    by (simp add: body_duration body_damage)
qed

text \<open>
  A record copies the snapshot when its eight effectiveness fields hold the snapshot's
  values: both sides of a weapon system hold the one value drawn for it.
\<close>

definition copies_snapshot :: "weapon_effectiveness \<Rightarrow> scenario \<Rightarrow> bool" where
  "copies_snapshot w r =
     (field_is r ''tank_effectiveness_A'' (getitem2 w ''tanks'' ''kill_probability'') \<and>
      field_is r ''tank_effectiveness_B'' (getitem2 w ''tanks'' ''kill_probability'') \<and>
      field_is r ''artillery_effectiveness_A'' (getitem2 w ''artillery'' ''kill_probability'') \<and>
      field_is r ''artillery_effectiveness_B'' (getitem2 w ''artillery'' ''kill_probability'') \<and>
      field_is r ''jet_effectiveness_A'' (getitem2 w ''fighter_jets'' ''kill_probability'') \<and>
      field_is r ''jet_effectiveness_B'' (getitem2 w ''fighter_jets'' ''kill_probability'') \<and>
      field_is r ''cyber_disruption_potential_A''
        (getitem2 w ''cyber_attacks'' ''infrastructure_disruption_probability'') \<and>
      field_is r ''cyber_disruption_potential_B''
        (getitem2 w ''cyber_attacks'' ''infrastructure_disruption_probability''))"

definition effectiveness_fields :: "string list" where
  "effectiveness_fields =
     [''tank_effectiveness_A'', ''tank_effectiveness_B'',
      ''artillery_effectiveness_A'', ''artillery_effectiveness_B'',
      ''jet_effectiveness_A'', ''jet_effectiveness_B'',
      ''cyber_disruption_potential_A'', ''cyber_disruption_potential_B'']"

lemma body_copies_snapshot:
  assumes "snapshot_values w = Some v"
  shows "copies_snapshot w (fst (body G v s))"
proof -
  obtain tank artillery jet cyber where v: "v = (tank, artillery, jet, cyber)"
    by (cases v) auto
  note look = snapshot_values_getitem [OF assms [unfolded v]]
  show ?thesis
    unfolding copies_snapshot_def
    by (simp add: look field_is_def v body_def build_scenario_def split_beta getitem_def)
qed

lemma body_effectiveness:
  "f \<in> set effectiveness_fields \<Longrightarrow> getitem (fst (body G v s)) f = getitem (fst (body G v s')) f"
  by (cases v) (auto simp add: effectiveness_fields_def body_def build_scenario_def split_beta getitem_def)

text \<open>
  C3. In every returned table, every record's \<open>tank_effectiveness_A\<close> and
  \<open>tank_effectiveness_B\<close> both equal \<open>tanks.kill_probability\<close> of the weapon profile drawn at
  the start of the call, and likewise for artillery, jets and cyber disruption; so each of
  these fields has the same value in all records of the table.
\<close>

theorem effectiveness_copied_from_snapshot:
  assumes "generate_conflict_scenarios G N g = Some (Inr (t, g'))"
    and "generate_weapon_effectiveness G g = Some (Inr (w, g1))"
  shows "(\<forall>r\<in>set t. copies_snapshot w r) \<and>
         (\<forall>r\<in>set t. \<forall>r'\<in>set t. \<forall>f\<in>set effectiveness_fields. getitem r f = getitem r' f)"
proof -
  from weapon_effectiveness_result [OF assms(2)] have w: "w = fst (weapon_draws G g)"
    by (metis fst_conv)
  have A: "copies_snapshot w r" if "r \<in> set t" for r
  proof -
    from conflict_scenarios_record [OF assms(1) that] obtain v s
      where "snapshot_values w = Some v" "r = fst (body G v s)" unfolding w by blast
    then show ?thesis by (simp add: body_copies_snapshot)
  qed
  have B: "getitem r f = getitem r' f"
    if "r \<in> set t" "r' \<in> set t" "f \<in> set effectiveness_fields" for r r' f
  proof -
    from conflict_scenarios_record [OF assms(1) that(1)] obtain v s
      where v: "snapshot_values w = Some v" and r: "r = fst (body G v s)" unfolding w by blast
    from conflict_scenarios_record [OF assms(1) that(2)] obtain v' s'
      where v': "snapshot_values w = Some v'" and r': "r' = fst (body G v' s')"
      unfolding w by blast
    from v v' have "v' = v" by simp
    with r r' body_effectiveness [OF that(3), of G v s s'] show ?thesis by simp
  qed
  from A B show ?thesis by blast
qed

section \<open>The table as a whole\<close>

text \<open>
  A table is in generation order when, for every index \<open>i\<close>, the loop run for \<open>i\<close>
  iterations gives the first \<open>i\<close> records, and the loop body run in the state reached then
  gives record \<open>i\<close>.
\<close>

definition generated_in_order ::
    "'s bitgen \<Rightarrow> weapon_effectiveness \<Rightarrow> national_capabilities \<Rightarrow> 's \<Rightarrow> scenario list \<Rightarrow> bool" where
  "generated_in_order G w nc g t =
     list_all
       (\<lambda>i. case scenarios_loop G w nc i [] g of
               Some (Inr (earlier, s)) \<Rightarrow>
                 earlier = take i t \<and>
                 (case make_scenario G w nc s of
                    Some (Inr (r, s')) \<Rightarrow> r = t ! i
                  | _ \<Rightarrow> False)
             | _ \<Rightarrow> False)
       [0..<length t]"

lemma rows_in_order:
  assumes "snapshot_values w = Some v"
  shows "generated_in_order G w nc g (fst (rows (body G v) n g))"
proof -
  let ?t = "fst (rows (body G v) n g)"
  have "(case scenarios_loop G w nc i [] g of
           Some (Inr (earlier, s)) \<Rightarrow>
             earlier = take i ?t \<and>
             (case make_scenario G w nc s of
                Some (Inr (r, s')) \<Rightarrow> r = ?t ! i
              | _ \<Rightarrow> False)
         | _ \<Rightarrow> False)" if "i < n" for i
    using that
    by (simp add: scenarios_loop_rows [OF assms] make_scenario_snapshot [OF assms]
        rows_take rows_nth split_beta)
  then show ?thesis
    unfolding generated_in_order_def by (simp add: list_all_iff length_rows)
qed

text \<open>
  C2. For every count \<open>N \<ge> 0\<close>, whenever the two integer draws of the capability profile
  return, \<open>generate_conflict_scenarios\<close> returns a table of exactly \<open>N\<close> records, and the
  records stand in the order in which the loop generated them. The loop itself always
  terminates; \<open>N = 0\<close> gives the empty table.
\<close>

theorem table_has_count_records_in_order:
  assumes "0 \<le> N"
    and "generate_weapon_effectiveness G g = Some (Inr (w, g1))"
    and "generate_national_capabilities G g1 \<noteq> None"
  shows "\<exists>t g' nc g2.
           generate_national_capabilities G g1 = Some (Inr (nc, g2)) \<and>
           generate_conflict_scenarios G N g = Some (Inr (t, g')) \<and>
           int (length t) = N \<and>
           generated_in_order G w nc g2 t"
proof -
  from weapon_effectiveness_result [OF assms(2)]
  have w: "w = fst (weapon_draws G g)" and g1: "g1 = snd (weapon_draws G g)"
    by (metis fst_conv, metis snd_conv)
  from assms(3) capabilities_cases [of G g1]
  obtain nc g2 where nc: "generate_national_capabilities G g1 = Some (Inr (nc, g2))" by auto
  obtain v where v: "snapshot_values w = Some v" using weapon_snapshot [of G g] w by blast
  let ?t = "fst (rows (body G v) (nat N) g2)"
  have "generate_conflict_scenarios G N g = Some (Inr (?t, snd (rows (body G v) (nat N) g2)))"
    using conflict_scenarios_eq [OF nc [unfolded g1] v [unfolded w], of N] by simp
  moreover have "int (length ?t) = N" using assms(1) by (simp add: length_rows)
  moreover have "generated_in_order G w nc g2 ?t" by (rule rows_in_order [OF v])
  ultimately show ?thesis using nc by blast
qed

text \<open>
  C1, amended. A negative count is not an error: \<^verbatim>\<open>range\<close> of a negative number is empty,
  so for every count \<open>N \<le> 0\<close> the call returns the empty table (whenever the two integer
  draws of the capability profile return), exactly as for \<open>N = 0\<close>.
\<close>

theorem negative_count_gives_empty_table:
  assumes "N \<le> 0"
    and "generate_weapon_effectiveness G g = Some (Inr (w, g1))"
    and "generate_national_capabilities G g1 \<noteq> None"
  shows "\<exists>g'. generate_conflict_scenarios G N g = Some (Inr ([], g'))"
proof -
  from weapon_effectiveness_result [OF assms(2)]
  have g1: "g1 = snd (weapon_draws G g)" by (metis snd_conv)
  from assms(3) capabilities_cases [of G g1]
  obtain nc g2 where nc: "generate_national_capabilities G g1 = Some (Inr (nc, g2))" by auto
  obtain v where v: "snapshot_values (fst (weapon_draws G g)) = Some v"
    using weapon_snapshot [of G g] by blast
  from assms(1) have "nat N = 0" by simp
  with conflict_scenarios_eq [OF nc [unfolded g1] v, of N] show ?thesis by simp
qed

text \<open>
  C6. \<open>generate_conflict_scenarios\<close> calls \<open>generate_national_capabilities\<close> once, between
  the weapon profile and the loop, and the loop never reads the profile it returned: passing
  any other profile \<open>other\<close> to the loop gives the same result, and two loops that differ
  only in the capability profile give the same table and final state.
\<close>

theorem capabilities_not_consumed:
  "generate_conflict_scenarios G N g =
     bind_res (generate_weapon_effectiveness G g) (\<lambda>(w, g1).
     bind_res (generate_national_capabilities G g1) (\<lambda>(nc, g2).
       scenarios_loop G w other (nat N) [] g2)) \<and>
   scenarios_loop G w nc1 n acc s = scenarios_loop G w nc2 n acc s"
proof
  show "generate_conflict_scenarios G N g =
     bind_res (generate_weapon_effectiveness G g) (\<lambda>(w, g1).
     bind_res (generate_national_capabilities G g1) (\<lambda>(nc, g2).
       scenarios_loop G w other (nat N) [] g2))"
  proof -
    have "(\<lambda>(nc, g2). scenarios_loop G w' nc (nat N) [] g2) =
          (\<lambda>(nc, g2). scenarios_loop G w' other (nat N) [] g2)" for w'
      by (rule ext, simp only: split_beta, rule scenarios_loop_capabilities)
    then show ?thesis
      by (simp only: generate_conflict_scenarios_def)
  qed
  show "scenarios_loop G w nc1 n acc s = scenarios_loop G w nc2 n acc s"
    by (rule scenarios_loop_capabilities)
qed

text \<open>
  C8, amended. \<open>uniform\<close> does not look at the order of its bounds and never raises an
  invalid-range error: it raises OverflowError exactly when the double \<open>high - low\<close> is
  not finite, and otherwise returns \<open>low + range * u\<close> in doubles, also when \<open>high < low\<close>.
  \<open>randint\<close> raises ValueError exactly when \<open>hi \<le> lo\<close> or a bound is outside the int64
  range: it fails for \<open>lo = hi\<close> too.
\<close>

theorem draws_and_invalid_ranges:
  "(uniform G low high g = Some (Inl OverflowError)) = overflows (high - low) \<and>
   (uniform G low high g = Some (Inr (random_uniform G low (fl (high - low)) g)))
     = (\<not> overflows (high - low)) \<and>
   (randint G lo hi g = Some (Inl ValueError)) = (lo < - (2 ^ 63) \<or> 2 ^ 63 < hi \<or> hi \<le> lo)"
proof (intro conjI)
  show "(uniform G low high g = Some (Inl OverflowError)) = overflows (high - low)"
    by (simp add: uniform_def)
  show "(uniform G low high g = Some (Inr (random_uniform G low (fl (high - low)) g)))
          = (\<not> overflows (high - low))"
    by (simp add: uniform_def)
  show "(randint G lo hi g = Some (Inl ValueError)) = (lo < - (2 ^ 63) \<or> 2 ^ 63 < hi \<or> hi \<le> lo)"
    by (cases "random_bounded_uint64 G (hi - 1 - lo) g") (auto simp add: randint_def)
qed

lemma simulation_data_old_state:
  "simulation_data S G seed n g1 = simulation_data S G seed n g2"
  by (simp add: simulation_data_def np_random_seed_def)

section \<open>The generator at a concrete seed\<close>

text \<open>
  The first block of outputs after seeding: output \<open>i < 227\<close> is the tempered twist of the
  key words \<open>i\<close>, \<open>i + 1\<close> and \<open>i + 397\<close> of the seeded state.
\<close>

lemma length_init_key: "length (init_key n p s) = n"
  by (induction n arbitrary: p s) simp_all

lemma take_twist_seq:
  "take n (twist_seq as bs cs) = twist_seq (take n as) (take n bs) (take n cs)"
proof (induction as bs cs arbitrary: n rule: twist_seq.induct)
  case (1 a as b bs c cs)
  then show ?case by (cases n) simp_all
qed simp_all

lemma length_twist_seq:
  "length (twist_seq as bs cs) = min (length as) (min (length bs) (length cs))"
  by (induction as bs cs rule: twist_seq.induct) simp_all

lemma block_prefix:
  assumes "length (key st) = 624" and "n \<le> 227"
  shows "take n (key (mt19937_gen st)) =
           twist_seq (take n (key st)) (take n (drop 1 (key st))) (take n (drop 397 (key st)))"
proof -
  have "length (twist_seq (key st) (drop 1 (key st)) (drop 397 (key st))) = 227"
    using assms(1) by (simp add: length_twist_seq)
  with assms(2) show ?thesis
    by (simp add: mt19937_gen_def Let_def take_twist_seq)
qed

definition mt_block :: "32 word \<Rightarrow> mt19937_state" where
  \<comment> \<open>the state after the first pass over the seeded key\<close>
  "mt_block seed = mt19937_gen (mt19937_seed seed)"

definition mt_at :: "32 word \<Rightarrow> int \<Rightarrow> mt19937_state" where
  \<comment> \<open>the state after \<open>i\<close> outputs of the first block\<close>
  "mt_at seed i = (mt_block seed)\<lparr>pos := i\<rparr>"

lemma mt_next_seed: "mt19937_next (mt19937_seed seed) = mt19937_next (mt_at seed 0)"
  by (simp add: mt19937_next_def mt_at_def mt_block_def mt19937_seed_def mt19937_gen_def Let_def)

lemma mt_next_at:
  "i \<noteq> 624 \<Longrightarrow>
   mt19937_next (mt_at seed i) =
     (word_of_int (temper (key (mt_block seed) ! nat i)), mt_at seed (i + 1))"
  by (simp add: mt19937_next_def mt_at_def Let_def)

definition first_outputs :: "32 word \<Rightarrow> nat \<Rightarrow> int list \<Rightarrow> bool" where
  \<comment> \<open>\<open>outs\<close> are the first \<open>n\<close> raw outputs after seeding with \<open>seed\<close>\<close>
  "first_outputs seed n outs =
     (n \<le> 227 \<and> length outs = n \<and>
      list_all (\<lambda>x. 0 \<le> x \<and> x < 4294967296) outs \<and>
      (let k = init_key 624 0 (uint seed)
       in map temper (twist_seq (take n k) (take n (drop 1 k)) (take n (drop 397 k)))) = outs)"

definition sample_at :: "int list \<Rightarrow> nat \<Rightarrow> real" where
  \<comment> \<open>the sample built from outputs \<open>i\<close> and \<open>i + 1\<close>\<close>
  "sample_at outs i =
     (real_of_int (outs ! i div 32) * 67108864 + real_of_int (outs ! (i + 1) div 64))
       / 9007199254740992"

lemma output_block:
  assumes "first_outputs seed n outs"
  shows "map temper (take n (key (mt_block seed))) = outs"
proof -
  have k: "key (mt19937_seed seed) = init_key 624 0 (uint seed)" by (simp add: mt19937_seed_def)
  from assms have n: "n \<le> 227" by (simp add: first_outputs_def)
  have "take n (key (mt_block seed)) =
          twist_seq (take n (init_key 624 0 (uint seed)))
            (take n (drop 1 (init_key 624 0 (uint seed))))
            (take n (drop 397 (init_key 624 0 (uint seed))))"
    unfolding mt_block_def using block_prefix [of "mt19937_seed seed" n] n
    by (simp add: k length_init_key)
  with assms show ?thesis by (simp add: first_outputs_def Let_def)
qed

lemma output_nth:
  assumes "first_outputs seed n outs" and "i < n"
  shows "temper (key (mt_block seed) ! i) = outs ! i"
proof -
  from assms(1) have len: "length outs = n" by (simp add: first_outputs_def)
  have block: "map temper (take n (key (mt_block seed))) = outs" by (rule output_block [OF assms(1)])
  then have "length (take n (key (mt_block seed))) = n" using len by (metis length_map)
  with assms(2) have i: "i < length (take n (key (mt_block seed)))" by simp
  have "outs ! i = map temper (take n (key (mt_block seed))) ! i" by (simp only: block)
  also have "\<dots> = temper (take n (key (mt_block seed)) ! i)" using i by (rule nth_map)
  also have "\<dots> = temper (key (mt_block seed) ! i)" using assms(2) by simp
  finally show ?thesis by simp
qed

lemma output_range:
  assumes "first_outputs seed n outs" and "i < n"
  shows "0 \<le> outs ! i \<and> outs ! i < 4294967296"
  using assms by (simp add: first_outputs_def list_all_length)

lemma output_next:
  assumes "first_outputs seed n outs" and "0 \<le> i" and "i < int n"
  shows "mt19937_next (mt_at seed i) = (word_of_int (outs ! nat i), mt_at seed (i + 1))"
proof -
  from assms have "nat i < n" by simp
  moreover from assms have "i \<noteq> 624" by (simp add: first_outputs_def)
  ultimately show ?thesis using output_nth [OF assms(1)] by (simp add: mt_next_at)
qed

lemma unat_drop_bit_word_of_int:
  assumes "0 \<le> a" and "a < 4294967296"
  shows "unat (drop_bit n (word_of_int a :: 32 word)) = nat (a div 2 ^ n)"
proof -
  have "take_bit 32 a = a" using assms by (simp add: take_bit_int_eq_self)
  then have "unat (word_of_int a :: 32 word) = nat a"
    by (simp add: unat_eq_nat_uint uint_word_of_int_eq)
  moreover have "unat (drop_bit n (word_of_int a :: 32 word)) =
                 drop_bit n (unat (word_of_int a :: 32 word))"
    by (rule unat_drop_bit_eq)
  ultimately show ?thesis
    using assms by (simp add: drop_bit_eq_div nat_div_distrib nat_power_eq)
qed

lemma output_sample:
  assumes "first_outputs seed n outs" and "0 \<le> i" and "i + 1 < int n"
  shows "random_sample mt19937_next (mt_at seed i) = (sample_at outs (nat i), mt_at seed (i + 2))"
proof -
  from assms have i: "i < int n" "0 \<le> i + 1" "nat i < n" "nat (i + 1) < n" by linarith+
  have a: "mt19937_next (mt_at seed i) = (word_of_int (outs ! nat i), mt_at seed (i + 1))"
    by (rule output_next [OF assms(1) assms(2) i(1)])
  have b: "mt19937_next (mt_at seed (i + 1)) =
             (word_of_int (outs ! nat (i + 1)), mt_at seed (i + 1 + 1))"
    by (rule output_next [OF assms(1) i(2) assms(3)])
  have ra: "0 \<le> outs ! nat i \<and> outs ! nat i < 4294967296"
    by (rule output_range [OF assms(1) i(3)])
  have rb: "0 \<le> outs ! nat (i + 1) \<and> outs ! nat (i + 1) < 4294967296"
    by (rule output_range [OF assms(1) i(4)])
  have n: "nat (i + 1) = nat i + 1" using assms by simp
  have A: "unat (drop_bit 5 (word_of_int (outs ! nat i) :: 32 word)) = nat (outs ! nat i div 32)"
    using unat_drop_bit_word_of_int [of "outs ! nat i" 5] ra by simp
  have B: "unat (drop_bit 6 (word_of_int (outs ! nat (i + 1)) :: 32 word)) =
             nat (outs ! nat (i + 1) div 64)"
    using unat_drop_bit_word_of_int [of "outs ! nat (i + 1)" 6] rb by simp
  have "random_sample mt19937_next (mt_at seed i) =
          ((real (nat (outs ! nat i div 32)) * 67108864 +
            real (nat (outs ! nat (i + 1) div 64))) / 9007199254740992,
           mt_at seed (i + 1 + 1))"
    by (simp only: random_sample_def a b prod.case A B)
  moreover have "real (nat (outs ! nat i div 32)) = real_of_int (outs ! nat i div 32)"
    using ra by (simp add: pos_imp_zdiv_nonneg_iff)
  moreover have "real (nat (outs ! nat (i + 1) div 64)) = real_of_int (outs ! nat (i + 1) div 64)"
    using rb by (simp add: pos_imp_zdiv_nonneg_iff)
  moreover have "i + 1 + 1 = i + 2" by simp
  ultimately show ?thesis by (simp only: sample_at_def n)
qed

lemma output_random_uniform:
  assumes "first_outputs seed n outs" and "0 \<le> i" and "i + 1 < int n"
  shows "random_uniform mt19937_next lower scale (mt_at seed i) =
           (fl (lower + fl (scale * sample_at outs (nat i))), mt_at seed (i + 2))"
  by (simp add: random_uniform_def output_sample [OF assms])

lemma output_draw:
  assumes "first_outputs seed n outs" and "0 \<le> i" and "i + 1 < int n"
  shows "draw mt19937_next a b (mt_at seed i) =
           (fl (fl a + fl (fl (fl b - fl a) * sample_at outs (nat i))), mt_at seed (i + 2))"
  by (simp add: draw_def output_random_uniform [OF assms])

lemma output_bounded:
  assumes "first_outputs seed n outs" and "0 \<le> i" and "i < int n"
  shows "bounded_masked_uint32 mt19937_next rng msk (mt_at seed i) =
           (if rng < (word_of_int (outs ! nat i) AND msk)
            then bounded_masked_uint32 mt19937_next rng msk (mt_at seed (i + 1))
            else Some (word_of_int (outs ! nat i) AND msk, mt_at seed (i + 1)))"
  by (subst bounded_masked_uint32.simps) (simp add: output_next [OF assms])

text \<open>Drawing from the freshly seeded state is drawing from the start of its first block.\<close>

lemma random_sample_seed:
  "random_sample mt19937_next (mt19937_seed seed) = random_sample mt19937_next (mt_at seed 0)"
  by (simp add: random_sample_def mt_next_seed)

lemma draw_seed: "draw mt19937_next a b (mt19937_seed seed) = draw mt19937_next a b (mt_at seed 0)"
  by (simp add: draw_def random_uniform_def random_sample_seed)

lemma weapon_draws_seed:
  "weapon_draws mt19937_next (mt19937_seed seed) = weapon_draws mt19937_next (mt_at seed 0)"
  by (simp only: weapon_draws_def draw_seed)

subsection \<open>Seed 42, the seed of the script\<close>

definition seed42_outputs :: "int list" where
  "seed42_outputs =
     [1608637542, 3421126067, 4083286876, 787846414, 3143890026, 3348747335, 2571218620,
      2563451924, 670094950, 1914837113, 669991378, 429389014, 249467210, 1972458954,
      3720198231, 1433267572, 2581769315, 613608295, 3041148567, 2795544706, 88409749,
      242285876, 4165731073, 3100961111, 3575313899, 4031053213, 911989541, 3344769,
      780932287, 4261516219, 787716372, 2652062880, 1306710475, 2627030329, 2253811733,
      30349564, 1855189739, 99052376, 1250819632, 2253890010, 2627888186, 1717389822,
      599121577, 200427519, 1254751707, 4182248123, 1573512143, 999745294, 1958805693,
      389151677, 3372305070, 2655947709, 857592370, 1642661739, 2208620086, 4222944499,
      2544401215, 2004731384, 199502978, 3693415908, 2609385266, 2921898630, 732395540,
      1934879560, 279394470, 56972561, 4075432323, 4046725720, 4147358011, 2419304461,
      3472040177, 1655351289, 1308306184, 68574553, 419498548, 991681409, 2938758483,
      1035196507, 1890440558, 2934594491, 524150214, 2619915691]"

lemma seed42_first_outputs: "first_outputs 42 82 seed42_outputs"
proof -
  have "(let k = init_key 624 0 (uint (42 :: 32 word))
         in map temper (twist_seq (take 82 k) (take 82 (drop 1 k)) (take 82 (drop 397 k)))) =
        seed42_outputs"
    by code_simp
  then show ?thesis
    unfolding first_outputs_def by (simp add: seed42_outputs_def)
qed

lemmas seed42_next = output_next [OF seed42_first_outputs]
lemmas seed42_draw = output_draw [OF seed42_first_outputs]
lemmas seed42_bounded = output_bounded [OF seed42_first_outputs]

lemma seed42_draw_state:
  "0 \<le> i \<Longrightarrow> i + 1 < 82 \<Longrightarrow> snd (draw mt19937_next a b (mt_at 42 i)) = mt_at 42 (i + 2)"
  by (simp add: seed42_draw)

lemma seed42_after_weapons: "snd (weapon_draws mt19937_next (mt19937_seed 42)) = mt_at 42 28"
  by (simp add: weapon_draws_def split_beta draw_seed seed42_draw_state)

lemma gen_mask32_699999: "gen_mask32 699999 = 1048575"
  by (simp add: gen_mask32_def)

lemma gen_mask32_599999: "gen_mask32 599999 = 1048575"
  by (simp add: gen_mask32_def)

text \<open>Each of the two integer draws rejects one masked output and accepts the next.\<close>

lemma seed42_personnel_A:
  "randint mt19937_next 500000 1200000 (mt_at 42 28) = Some (Inr (603355, mt_at 42 30))"
  by (simp add: randint_def random_bounded_uint64_def gen_mask32_699999 seed42_bounded
      seed42_outputs_def)

lemma seed42_personnel_B:
  "randint mt19937_next 400000 1000000 (mt_at 42 38) = Some (Inr (900186, mt_at 42 40))"
  by (simp add: randint_def random_bounded_uint64_def gen_mask32_599999 seed42_bounded
      seed42_outputs_def)

lemma seed42_capabilities:
  "\<exists>nc. generate_national_capabilities mt19937_next (mt_at 42 28) = Some (Inr (nc, mt_at 42 48))"
  by (simp add: generate_national_capabilities_def seed42_personnel_A seed42_personnel_B
      uniform_draw split_beta seed42_draw_state)

lemma seed42_capabilities_return:
  "generate_national_capabilities mt19937_next
     (snd (weapon_draws mt19937_next (mt19937_seed 42))) \<noteq> None"
  using seed42_capabilities by (auto simp add: seed42_after_weapons)

lemma seed42_run:
  "\<exists>v. snapshot_values (fst (weapon_draws mt19937_next (mt19937_seed 42))) = Some v \<and>
       generate_conflict_scenarios mt19937_next N (mt19937_seed 42) =
         Some (Inr (rows (body mt19937_next v) (nat N) (mt_at 42 48)))"
proof -
  obtain nc where nc: "generate_national_capabilities mt19937_next
      (snd (weapon_draws mt19937_next (mt19937_seed 42))) = Some (Inr (nc, mt_at 42 48))"
    using seed42_capabilities by (auto simp add: seed42_after_weapons)
  obtain v where v: "snapshot_values (fst (weapon_draws mt19937_next (mt19937_seed 42))) = Some v"
    using weapon_snapshot [of mt19937_next "mt19937_seed 42"] by blast
  from conflict_scenarios_eq [OF nc v] v show ?thesis by blast
qed

lemma seed42_returns:
  "\<exists>t g'. generate_conflict_scenarios mt19937_next 2 (mt19937_seed 42) = Some (Inr (t, g')) \<and>
          length t = 2"
proof -
  from seed42_run [of 2] obtain v where
    "generate_conflict_scenarios mt19937_next 2 (mt19937_seed 42) =
       Some (Inr (fst (rows (body mt19937_next v) (nat 2) (mt_at 42 48)),
                  snd (rows (body mt19937_next v) (nat 2) (mt_at 42 48))))"
    by auto
  moreover have "length (fst (rows (body mt19937_next v) (nat 2) (mt_at 42 48))) = 2"
    by (simp add: length_rows)
  ultimately show ?thesis by blast
qed

lemma seed42_one_row:
  "\<exists>v. generate_conflict_scenarios mt19937_next 1 (mt19937_seed 42) =
         Some (Inr ([fst (body mt19937_next v (mt_at 42 48))],
                    snd (body mt19937_next v (mt_at 42 48))))"
proof -
  from seed42_run [of 1] obtain v where run:
    "generate_conflict_scenarios mt19937_next 1 (mt19937_seed 42) =
       Some (Inr (rows (body mt19937_next v) (nat 1) (mt_at 42 48)))"
    by blast
  have one: "nat 1 = Suc 0" by simp
  have "rows (body mt19937_next v) (nat 1) (mt_at 42 48) =
          ([fst (body mt19937_next v (mt_at 42 48))], snd (body mt19937_next v (mt_at 42 48)))"
    unfolding one by (simp add: split_beta)
  with run show ?thesis by (intro exI [of _ v]) simp
qed

text \<open>The values that the first record of the table holds at seed 42.\<close>

lemma weapon_tank_kill:
  "getitem2 (fst (weapon_draws G g)) ''tanks'' ''kill_probability'' =
     Inr (fst (draw G 0.4 0.7 (snd (draw G 0.6 0.85 g))))"
  by (simp add: weapon_draws_def split_beta getitem2_def getitem_def)

lemma record_tank_value:
  assumes "generate_conflict_scenarios G N g = Some (Inr (t, g'))" and "r \<in> set t"
  shows "getitem r ''tank_effectiveness_A'' =
           Inr (PyFloat (fst (draw G 0.4 0.7 (snd (draw G 0.6 0.85 g)))))"
proof -
  from conflict_scenarios_record [OF assms] obtain v s
    where v: "snapshot_values (fst (weapon_draws G g)) = Some v" and r: "r = fst (body G v s)"
    by blast
  from body_copies_snapshot [OF v, of G s]
  have "field_is r ''tank_effectiveness_A''
          (getitem2 (fst (weapon_draws G g)) ''tanks'' ''kill_probability'')"
    by (simp add: copies_snapshot_def r)
  then show ?thesis by (simp add: weapon_tank_kill field_is_def)
qed

lemma seed42_tank_kill:
  "fst (draw mt19937_next 0.4 0.7 (snd (draw mt19937_next 0.6 0.85 (mt19937_seed 42)))) =
     6171861659546495 / 9007199254740992"
proof -
  have A: "fl 0.4 = (3602879701896397 / 9007199254740992 :: real)" by code_simp
  have B: "fl 0.7 = (3152519739159347 / 4503599627370496 :: real)" by code_simp
  have R: "fl ((3152519739159347 / 4503599627370496) - (3602879701896397 / 9007199254740992)) = (2702159776422297 / 9007199254740992 :: real)" by code_simp
  have U: "sample_at seed42_outputs 2 = (2140818298041749 / 2251799813685248 :: real)"
    by (simp add: sample_at_def seed42_outputs_def)
  have P: "fl ((2702159776422297 / 9007199254740992) * (2140818298041749 / 2251799813685248)) = (1284490978825049 / 4503599627370496 :: real)" by code_simp
  have V: "fl ((3602879701896397 / 9007199254740992) + (1284490978825049 / 4503599627370496)) = (6171861659546495 / 9007199254740992 :: real)" by code_simp
  have "fst (draw mt19937_next 0.4 0.7 (snd (draw mt19937_next 0.6 0.85 (mt19937_seed 42)))) =
          fl (fl 0.4 + fl (fl (fl 0.7 - fl 0.4) * sample_at seed42_outputs 2))"
    by (simp add: draw_seed seed42_draw)
  also have "\<dots> = 6171861659546495 / 9007199254740992"
    by (simp only: A B R U P V)
  finally show ?thesis .
qed

lemma body_duration_value:
  "getitem (fst (body G v s)) ''conflict_duration_days'' =
     Inr (PyFloat (fst (draw G 30 180
       (snd (G (snd (draw G 0.1 0.4 (snd (draw G 0.3 0.6 (snd (draw G 0.2 0.5 s)))))))))))"
  by (cases v) (simp add: body_def build_scenario_def split_beta getitem_def)

lemma seed42_duration:
  "getitem (fst (body mt19937_next v (mt_at 42 48))) ''conflict_duration_days'' =
     Inr (PyFloat (195146417593239 / 1099511627776))"
proof -
  have A: "fl 30 = (30 :: real)" by code_simp
  have B: "fl 180 = (180 :: real)" by code_simp
  have R: "fl (180 - 30) = (150 :: real)" by code_simp
  have U: "sample_at seed42_outputs 55 = (2214039125469307 / 2251799813685248 :: real)"
    by (simp add: sample_at_def seed42_outputs_def)
  have P: "fl (150 * (2214039125469307 / 2251799813685248)) = (162161068759959 / 1099511627776 :: real)" by code_simp
  have V: "fl (30 + (162161068759959 / 1099511627776)) = (195146417593239 / 1099511627776 :: real)" by code_simp
  have "fst (draw mt19937_next 30 180
          (snd (mt19937_next (snd (draw mt19937_next 0.1 0.4 (snd (draw mt19937_next 0.3 0.6
            (snd (draw mt19937_next 0.2 0.5 (mt_at 42 48)))))))))) =
          fl (fl 30 + fl (fl (fl 180 - fl 30) * sample_at seed42_outputs 55))"
    by (simp add: seed42_draw_state seed42_next seed42_draw)
  also have "\<dots> = 195146417593239 / 1099511627776"
    by (simp only: A B R U P V)
  finally show ?thesis by (simp only: body_duration_value)
qed

lemma seed42_reversed_bounds:
  "uniform mt19937_next 5 1 (mt19937_seed 42) = Some (Inr (3942720794536837 / 1125899906842624, mt_at 42 2))"
proof -
  have R: "fl (- 4) = (- 4 :: real)" by code_simp
  have U: "sample_at seed42_outputs 0 = (1686778739676283 / 4503599627370496 :: real)"
    by (simp add: sample_at_def seed42_outputs_def)
  have P: "fl (- 4 * (1686778739676283 / 4503599627370496)) = (- (1686778739676283 / 1125899906842624) :: real)" by code_simp
  have V: "fl (5 + - (1686778739676283 / 1125899906842624)) = (3942720794536837 / 1125899906842624 :: real)" by code_simp
  have F: "(1 - 5 :: real) = - 4" by simp
  have "\<not> overflows (1 - 5)" by (simp only: F overflows_def R) simp
  moreover have "random_uniform mt19937_next 5 (fl (1 - 5)) (mt19937_seed 42) =
      (fl (5 + fl (fl (1 - 5) * sample_at seed42_outputs 0)), mt_at 42 2)"
    using output_random_uniform [OF seed42_first_outputs, of 0 5 "fl (1 - 5)"]
    by (simp add: random_uniform_def random_sample_seed)
  moreover have "fl (5 + fl (fl (1 - 5) * sample_at seed42_outputs 0)) = 3942720794536837 / 1125899906842624"
    by (simp only: F R U P V)
  ultimately show ?thesis by (simp only: uniform_def if_False)
qed

subsection \<open>Seed 0\<close>

definition seed0_outputs :: "int list" where
  "seed0_outputs = [2357136044, 2546248239, 3071714933, 3626093760]"

lemma seed0_first_outputs: "first_outputs 0 4 seed0_outputs"
proof -
  have "(let k = init_key 624 0 (uint (0 :: 32 word))
         in map temper (twist_seq (take 4 k) (take 4 (drop 1 k)) (take 4 (drop 397 k)))) =
        seed0_outputs"
    by code_simp
  then show ?thesis
    unfolding first_outputs_def by (simp add: seed0_outputs_def)
qed

lemma seed0_tank_kill:
  "fst (draw mt19937_next 0.4 0.7 (snd (draw mt19937_next 0.6 0.85 (mt19937_seed 0)))) =
     2767717820116449 / 4503599627370496"
proof -
  have A: "fl 0.4 = (3602879701896397 / 9007199254740992 :: real)" by code_simp
  have B: "fl 0.7 = (3152519739159347 / 4503599627370496 :: real)" by code_simp
  have R: "fl ((3152519739159347 / 4503599627370496) - (3602879701896397 / 9007199254740992)) = (2702159776422297 / 9007199254740992 :: real)" by code_simp
  have U: "sample_at seed0_outputs 2 = (6441853127788339 / 9007199254740992 :: real)"
    by (simp add: sample_at_def seed0_outputs_def)
  have P: "fl ((2702159776422297 / 9007199254740992) * (6441853127788339 / 9007199254740992)) = (7730223753346005 / 36028797018963968 :: real)" by code_simp
  have V: "fl ((3602879701896397 / 9007199254740992) + (7730223753346005 / 36028797018963968)) = (2767717820116449 / 4503599627370496 :: real)" by code_simp
  have "fst (draw mt19937_next 0.4 0.7 (snd (draw mt19937_next 0.6 0.85 (mt19937_seed 0)))) =
          fl (fl 0.4 + fl (fl (fl 0.7 - fl 0.4) * sample_at seed0_outputs 2))"
    by (simp add: draw_seed output_draw [OF seed0_first_outputs])
  also have "\<dots> = 2767717820116449 / 4503599627370496"
    by (simp only: A B R U P V)
  finally show ?thesis .
qed

section \<open>Determinism\<close>

text \<open>
  C5. The table that the script computes is a function of the seed and the count alone:
  whatever the state of the global generator was before the simulator is constructed, the
  same seed and count give the same result. And the seeds 42 and 0 give different tables
  under numpy's generator: already the tank effectiveness of their records differs.
\<close>

theorem same_seed_same_table:
  "simulation_data S G seed n g1 = simulation_data S G seed n g2 \<and>
   simulation_data mt19937_seed mt19937_next 42 1 g3 \<noteq>
     simulation_data mt19937_seed mt19937_next 0 1 g4"
proof
  show "simulation_data S G seed n g1 = simulation_data S G seed n g2"
    by (rule simulation_data_old_state)
  from seed42_one_row obtain r g' where run42:
    "generate_conflict_scenarios mt19937_next 1 (mt19937_seed 42) = Some (Inr ([r], g'))"
    by blast
  have r42: "getitem r ''tank_effectiveness_A'' = Inr (PyFloat (6171861659546495 / 9007199254740992))"
    using record_tank_value [OF run42, of r] unfolding seed42_tank_kill by simp
  have d42: "simulation_data mt19937_seed mt19937_next 42 1 g3 = Some (Inr [r])"
    by (simp add: simulation_data_def np_random_seed_def run42)
  have "simulation_data mt19937_seed mt19937_next 0 1 g4 \<noteq> Some (Inr [r])"
  proof
    assume "simulation_data mt19937_seed mt19937_next 0 1 g4 = Some (Inr [r])"
    then obtain g0 where run0:
      "generate_conflict_scenarios mt19937_next 1 (mt19937_seed 0) = Some (Inr ([r], g0))"
      by (auto simp add: simulation_data_def np_random_seed_def bind_res_def
          split: option.splits sum.splits)
    have "getitem r ''tank_effectiveness_A'' = Inr (PyFloat (2767717820116449 / 4503599627370496))"
      using record_tank_value [OF run0, of r] unfolding seed0_tank_kill by simp
    with r42 show False by simp
  qed
  with d42 show "simulation_data mt19937_seed mt19937_next 42 1 g3 \<noteq>
      simulation_data mt19937_seed mt19937_next 0 1 g4"
    by simp
qed

section \<open>The script's run, seed 42\<close>

text \<open>
  The theorems above at the state that \<^verbatim>\<open>WargameSimulationData(seed=42)\<close> leaves behind.
  Both integer draws of the capability profile return there, so every call returns.
\<close>

theorem table_of_two_records_seed42:
  "(0 :: int) \<le> 2 \<and>
   generate_weapon_effectiveness mt19937_next (mt19937_seed 42) =
     Some (Inr (weapon_draws mt19937_next (mt19937_seed 42))) \<and>
   generate_national_capabilities mt19937_next (snd (weapon_draws mt19937_next (mt19937_seed 42))) \<noteq> None \<and>
   (\<exists>t g' nc g2.
      generate_national_capabilities mt19937_next (snd (weapon_draws mt19937_next (mt19937_seed 42))) = Some (Inr (nc, g2)) \<and>
      generate_conflict_scenarios mt19937_next 2 (mt19937_seed 42) = Some (Inr (t, g')) \<and>
      int (length t) = 2 \<and>
      generated_in_order mt19937_next (fst (weapon_draws mt19937_next (mt19937_seed 42))) nc g2 t)"
  using table_has_count_records_in_order
    [of 2 mt19937_next "mt19937_seed 42" "fst (weapon_draws mt19937_next (mt19937_seed 42))" "snd (weapon_draws mt19937_next (mt19937_seed 42))"]
    weapon_effectiveness_draws [of mt19937_next "mt19937_seed 42"] seed42_capabilities_return
  by simp

theorem negative_count_seed42:
  "(- 1 :: int) \<le> 0 \<and>
   generate_weapon_effectiveness mt19937_next (mt19937_seed 42) =
     Some (Inr (weapon_draws mt19937_next (mt19937_seed 42))) \<and>
   generate_national_capabilities mt19937_next (snd (weapon_draws mt19937_next (mt19937_seed 42))) \<noteq> None \<and>
   (\<exists>g'. generate_conflict_scenarios mt19937_next (- 1) (mt19937_seed 42) = Some (Inr ([], g')))"
  using negative_count_gives_empty_table
    [of "- 1" mt19937_next "mt19937_seed 42" "fst (weapon_draws mt19937_next (mt19937_seed 42))" "snd (weapon_draws mt19937_next (mt19937_seed 42))"]
    weapon_effectiveness_draws [of mt19937_next "mt19937_seed 42"] seed42_capabilities_return
  by simp

text \<open>
  Against C1 as stated: with seed 42 and count \<open>-1\<close> the call raises nothing. It returns
  the empty table, having consumed the 48 outputs of the two profiles.
\<close>

theorem negative_count_returns_seed42:
  "generate_conflict_scenarios mt19937_next (- 1) (mt19937_seed 42) = Some (Inr ([], mt_at 42 48))"
proof -
  from seed42_run [of "- 1"] obtain v where
    "generate_conflict_scenarios mt19937_next (- 1) (mt19937_seed 42) =
       Some (Inr (rows (body mt19937_next v) (nat (- 1)) (mt_at 42 48)))"
    by blast
  then show ?thesis by simp
qed

theorem effectiveness_copied_seed42:
  "\<exists>t g'. generate_conflict_scenarios mt19937_next 2 (mt19937_seed 42) = Some (Inr (t, g')) \<and>
     generate_weapon_effectiveness mt19937_next (mt19937_seed 42) =
       Some (Inr (weapon_draws mt19937_next (mt19937_seed 42))) \<and>
     length t = 2 \<and>
     list_all (copies_snapshot (fst (weapon_draws mt19937_next (mt19937_seed 42)))) t \<and>
     list_all (\<lambda>r. list_all (\<lambda>r'. list_all (\<lambda>f. getitem r f = getitem r' f)
       effectiveness_fields) t) t"
proof -
  from seed42_returns obtain t g' where
    run: "generate_conflict_scenarios mt19937_next 2 (mt19937_seed 42) = Some (Inr (t, g'))"
    and len: "length t = 2" by blast
  have w': "generate_weapon_effectiveness mt19937_next (mt19937_seed 42) =
      Some (Inr (weapon_draws mt19937_next (mt19937_seed 42)))"
    by (rule weapon_effectiveness_draws)
  have w: "generate_weapon_effectiveness mt19937_next (mt19937_seed 42) =
      Some (Inr (fst (weapon_draws mt19937_next (mt19937_seed 42)),
                 snd (weapon_draws mt19937_next (mt19937_seed 42))))"
    by (simp only: prod.collapse w')
  note both = effectiveness_copied_from_snapshot [OF run w]
  have A: "list_all (copies_snapshot (fst (weapon_draws mt19937_next (mt19937_seed 42)))) t"
    using both unfolding list_all_iff by blast
  have B: "list_all (\<lambda>r. list_all (\<lambda>r'. list_all (\<lambda>f. getitem r f = getitem r' f)
       effectiveness_fields) t) t"
    using both unfolding list_all_iff by blast
  show ?thesis
    by (intro exI [of _ t] exI [of _ g'] conjI run w' len A B)
qed

theorem duration_and_damage_seed42:
  "\<exists>t g'. generate_conflict_scenarios mt19937_next 2 (mt19937_seed 42) = Some (Inr (t, g')) \<and>
     length t = 2 \<and>
     list_all (\<lambda>r. float_in r ''conflict_duration_days'' 30 180 \<and>
                   float_in r ''economic_damage_billion_usd'' 50 500) t"
proof -
  from seed42_returns obtain t g' where
    run: "generate_conflict_scenarios mt19937_next 2 (mt19937_seed 42) = Some (Inr (t, g'))"
    and len: "length t = 2" by blast
  from duration_and_damage_ranges [OF run]
  have "list_all (\<lambda>r. float_in r ''conflict_duration_days'' 30 180 \<and>
                      float_in r ''economic_damage_billion_usd'' 50 500) t"
    by (simp add: list_all_iff)
  with run len show ?thesis by blast
qed

text \<open>
  The column of the table under a name, as the script's \<^verbatim>\<open>simulation_data['...']\<close> reads it.
\<close>

definition column :: "string \<Rightarrow> (scenario list \<times> 's) res \<Rightarrow> (error + pyval) list res" where
  "column name m = bind_res m (\<lambda>(table, g). Some (Inr (map (\<lambda>r. getitem r name) table)))"

text \<open>
  Against C7 as stated: with seed 42 the first record's \<open>conflict_duration_days\<close> is the
  double 177.48463287101822, which is not integer-valued.
\<close>

theorem duration_not_integer_seed42:
  "column ''conflict_duration_days''
     (generate_conflict_scenarios mt19937_next 1 (mt19937_seed 42)) =
     Some (Inr [Inr (PyFloat (195146417593239 / 1099511627776))]) \<and>
   \<not> integer_valued (PyFloat (195146417593239 / 1099511627776))"
proof
  from seed42_one_row obtain v where
    "generate_conflict_scenarios mt19937_next 1 (mt19937_seed 42) =
       Some (Inr ([fst (body mt19937_next v (mt_at 42 48))],
                  snd (body mt19937_next v (mt_at 42 48))))"
    by blast
  then show "column ''conflict_duration_days''
     (generate_conflict_scenarios mt19937_next 1 (mt19937_seed 42)) =
     Some (Inr [Inr (PyFloat (195146417593239 / 1099511627776))])"
    by (simp add: column_def seed42_duration)
  show "\<not> integer_valued (PyFloat (195146417593239 / 1099511627776))"
    by (simp add: integer_valued_def)
qed

theorem initial_aggressor_seed42:
  "\<exists>t g'. generate_conflict_scenarios mt19937_next 2 (mt19937_seed 42) = Some (Inr (t, g')) \<and>
     length t = 2 \<and>
     list_all (\<lambda>r. getitem r ''initial_aggressor'' = Inr (PyStr ''Nation_A'') \<or>
                   getitem r ''initial_aggressor'' = Inr (PyStr ''Nation_B'')) t"
proof -
  from seed42_returns obtain t g' where
    run: "generate_conflict_scenarios mt19937_next 2 (mt19937_seed 42) = Some (Inr (t, g'))"
    and len: "length t = 2" by blast
  from initial_aggressor_is_a_nation [OF run]
  have "list_all (\<lambda>r. getitem r ''initial_aggressor'' = Inr (PyStr ''Nation_A'') \<or>
                      getitem r ''initial_aggressor'' = Inr (PyStr ''Nation_B'')) t"
    by (simp add: list_all_iff)
  with run len show ?thesis by blast
qed

theorem scenario_schema_seed42:
  "\<exists>t g'. generate_conflict_scenarios mt19937_next 2 (mt19937_seed 42) = Some (Inr (t, g')) \<and>
     length t = 2 \<and>
     list_all (\<lambda>r. map fst r = scenario_fields) t \<and>
     length scenario_fields = 17 \<and> distinct scenario_fields"
proof -
  from seed42_returns obtain t g' where
    run: "generate_conflict_scenarios mt19937_next 2 (mt19937_seed 42) = Some (Inr (t, g'))"
    and len: "length t = 2" by blast
  from scenario_schema [OF run]
  have "list_all (\<lambda>r. map fst r = scenario_fields) t \<and>
        length scenario_fields = 17 \<and> distinct scenario_fields"
    by (simp add: list_all_iff)
  with run len show ?thesis by blast
qed

text \<open>
  Against C10 as stated: with seed 42 and count 1 the one record of the table has
  seventeen fields, not sixteen.
\<close>

theorem seventeen_fields_seed42:
  "map_option (map_sum id (map length \<circ> fst))
     (generate_conflict_scenarios mt19937_next 1 (mt19937_seed 42)) = Some (Inr [17])"
proof -
  from seed42_one_row obtain v where
    "generate_conflict_scenarios mt19937_next 1 (mt19937_seed 42) =
       Some (Inr ([fst (body mt19937_next v (mt_at 42 48))],
                  snd (body mt19937_next v (mt_at 42 48))))"
    by blast
  moreover have "length (fst (body mt19937_next v (mt_at 42 48))) = 17"
    using arg_cong [OF body_fields [of mt19937_next v "mt_at 42 48"], of length]
    by (simp add: scenario_fields_def)
  ultimately show ?thesis by simp
qed

text \<open>
  Against C8 as stated: with seed 42, \<^verbatim>\<open>np.random.uniform(5, 1)\<close> raises nothing and returns
  the double 3.50183952461055, although \<open>5 > 1\<close>; and \<^verbatim>\<open>np.random.randint(3, 3)\<close> raises
  ValueError, although \<open>3 \<le> 3\<close>.
\<close>

theorem reversed_and_equal_bounds_seed42:
  "uniform mt19937_next 5 1 (mt19937_seed 42) =
     Some (Inr (3942720794536837 / 1125899906842624, mt_at 42 2)) \<and>
   randint mt19937_next 3 3 (mt19937_seed 42) = Some (Inl ValueError)"
  by (simp add: seed42_reversed_bounds randint_def)

end
